theory Spec2Isabelle
  imports Main "HOL-Library.AList"
begin

section \<open>Python values and exceptions\<close>

text \<open>
  The program is a single Python module, \<^verbatim>\<open>project.py\<close>. An exception that a
  statement raises is the left summand of the result; a normal return is the right one.
  Python strings are modelled as \<^typ>\<open>string\<close>, so a character is one of 256 values.
\<close>

datatype pyexn =
    AttributeError
  | TypeError
  | IndexError
  | KeyError
  | NameError
  | RequestException
  | PyMongoError

definition and_then :: "pyexn + 'a \<Rightarrow> ('a \<Rightarrow> pyexn + 'b) \<Rightarrow> pyexn + 'b" where
  "and_then r f = (case r of Inl e \<Rightarrow> Inl e | Inr x \<Rightarrow> f x)"

text \<open>
  \<^verbatim>\<open>str.isspace\<close> restricted to the code points below 256: tab, line feed, vertical tab,
  form feed, carriage return, the four separators 0x1C..0x1F, space, NEL and the
  no-break space.
\<close>

definition isspace :: "char \<Rightarrow> bool" where
  "isspace c =
     (let n = (of_char c :: nat)
      in (9 \<le> n \<and> n \<le> 13) \<or> (28 \<le> n \<and> n \<le> 32) \<or> n = 133 \<or> n = 160)"

text \<open>\<^verbatim>\<open>str.strip()\<close>: leading and trailing whitespace removed.\<close>

definition strip :: "string \<Rightarrow> string" where
  "strip s = rev (dropWhile isspace (rev (dropWhile isspace s)))"

text \<open>\<^verbatim>\<open>sub in s\<close> on strings: \<open>sub\<close> occurs in \<open>s\<close> as a contiguous run.\<close>

fun startswith :: "string \<Rightarrow> string \<Rightarrow> bool" where
  "startswith s [] = True"
| "startswith [] (c # sub) = False"
| "startswith (d # s) (c # sub) = (d = c \<and> startswith s sub)"

fun contains :: "string \<Rightarrow> string \<Rightarrow> bool" where
  "contains [] sub = (sub = [])"
| "contains (d # s) sub = (startswith (d # s) sub \<or> contains s sub)"

section \<open>The parsed document\<close>

text \<open>
  \<^verbatim>\<open>BeautifulSoup(response.content, 'html.parser')\<close> yields a tree of tags and text
  nodes. The parser itself is outside the program; the model starts at the tree. The
  soup object is the list of its top-level nodes.
\<close>

datatype node =
    NavigableString string
  | Tag string "(string \<times> string) list" "node list"

type_synonym soup = "node list"

text \<open>An element as the program holds it: the node and the siblings that follow it.\<close>

type_synonym element = "node \<times> node list"

fun contents :: "node \<Rightarrow> node list" where
  "contents (NavigableString s) = []"
| "contents (Tag nm attrs cs) = cs"

fun is_tag :: "string \<Rightarrow> node \<Rightarrow> bool" where
  "is_tag nm (NavigableString s) = False"
| "is_tag nm (Tag nm' attrs cs) = (nm' = nm)"

fun get_attr :: "node \<Rightarrow> string \<Rightarrow> string option" where
  "get_attr (NavigableString s) a = None"
| "get_attr (Tag nm attrs cs) a = map_of attrs a"

text \<open>
  \<^verbatim>\<open>.string\<close>: the text of a text node; for a tag with exactly one child, that
  child's \<^verbatim>\<open>.string\<close>; \<^verbatim>\<open>None\<close> for a tag with no child or several.
\<close>

fun tag_string :: "node \<Rightarrow> string option" where
  "tag_string (NavigableString s) = Some s"
| "tag_string (Tag nm attrs [c]) = tag_string c"
| "tag_string (Tag nm attrs cs) = None"

text \<open>\<^verbatim>\<open>.text\<close>: all text below the node, concatenated in document order.\<close>

fun get_text :: "node \<Rightarrow> string" where
  "get_text (NavigableString s) = s"
| "get_text (Tag nm attrs cs) = concat (map get_text cs)"

text \<open>
  \<^verbatim>\<open>.descendants\<close>: every node below, parents before children, in document order,
  each paired with its following siblings.
\<close>

fun descendants :: "node list \<Rightarrow> element list" where
  "descendants [] = []"
| "descendants (NavigableString s # ns) = (NavigableString s, ns) # descendants ns"
| "descendants (Tag nm attrs cs # ns) =
     (Tag nm attrs cs, ns) # descendants cs @ descendants ns"

text \<open>
  \<^verbatim>\<open>find_all(name, ...)\<close> below a list of nodes: the tags of that name that satisfy
  the further condition, in document order; \<^verbatim>\<open>find\<close> is the first of them or
  \<^verbatim>\<open>None\<close>.
\<close>

definition bs_find_all :: "node list \<Rightarrow> string \<Rightarrow> (node \<Rightarrow> bool) \<Rightarrow> element list" where
  "bs_find_all cs nm P = filter (\<lambda>el. is_tag nm (fst el) \<and> P (fst el)) (descendants cs)"

definition bs_find :: "node list \<Rightarrow> string \<Rightarrow> (node \<Rightarrow> bool) \<Rightarrow> element option" where
  "bs_find cs nm P = (case bs_find_all cs nm P of [] \<Rightarrow> None | el # els \<Rightarrow> Some el)"

text \<open>\<^verbatim>\<open>find_next_sibling(name)\<close>: the first following sibling that is such a tag.\<close>

fun next_sibling_named :: "string \<Rightarrow> node list \<Rightarrow> element option" where
  "next_sibling_named nm [] = None"
| "next_sibling_named nm (n # ns) =
     (if is_tag nm n then Some (n, ns) else next_sibling_named nm ns)"

definition find_next_sibling :: "element \<Rightarrow> string \<Rightarrow> element option" where
  "find_next_sibling el nm = next_sibling_named nm (snd el)"

text \<open>Attribute access on a value that may be \<^verbatim>\<open>None\<close>.\<close>

definition deref :: "'a option \<Rightarrow> pyexn + 'a" where
  "deref x = (case x of None \<Rightarrow> Inl AttributeError | Some v \<Rightarrow> Inr v)"

text \<open>\<^verbatim>\<open>xs[i]\<close> for a non-negative literal index.\<close>

definition item :: "'a list \<Rightarrow> nat \<Rightarrow> pyexn + 'a" where
  "item xs i = (if i < length xs then Inr (xs ! i) else Inl IndexError)"

section \<open>Extraction: \<^verbatim>\<open>fetch_inmate_details\<close>\<close>

text \<open>
  A value stored in the \<^verbatim>\<open>inmate_info\<close> dict is a string or a list of row dicts
  whose values are strings. A dict is an association list in insertion order; item
  assignment \<^verbatim>\<open>d[k] = v\<close> is \<^const>\<open>AList.update\<close>.
\<close>

type_synonym entry = "(string \<times> string) list"

datatype pyval = Str string | Rows "entry list"

type_synonym doc = "(string \<times> pyval) list"

text \<open>\<^verbatim>\<open>el.find_next_sibling('td').text.strip()\<close>\<close>

definition sibling_text :: "element \<Rightarrow> pyexn + string" where
  "sibling_text el =
     and_then (deref (find_next_sibling el ''td'')) (\<lambda>td. Inr (strip (get_text (fst td))))"

text \<open>\<^verbatim>\<open>soup.find('th', string=label).find_next_sibling('td').text.strip()\<close>\<close>

definition labelled_value :: "soup \<Rightarrow> string \<Rightarrow> pyexn + string" where
  "labelled_value soup label =
     and_then (deref (bs_find soup ''th'' (\<lambda>n. tag_string n = Some label))) sibling_text"

text \<open>\<^verbatim>\<open>columns[i].text.strip()\<close>\<close>

definition column_text :: "element list \<Rightarrow> nat \<Rightarrow> pyexn + string" where
  "column_text columns i = and_then (item columns i) (\<lambda>td. Inr (strip (get_text (fst td))))"

text \<open>\<^verbatim>\<open>row.find_all('td')\<close>\<close>

definition row_cells :: "element \<Rightarrow> element list" where
  "row_cells row = bs_find_all (contents (fst row)) ''td'' (\<lambda>n. True)"

text \<open>The body of the loop over the sentence rows (lines 79 to 87).\<close>

definition sentence_entry :: "element \<Rightarrow> pyexn + entry" where
  "sentence_entry row =
     (let columns = row_cells row
      in and_then (column_text columns 0) (\<lambda>c0.
         and_then (column_text columns 1) (\<lambda>c1.
         and_then (column_text columns 2) (\<lambda>c2.
         and_then (column_text columns 3) (\<lambda>c3.
         and_then (column_text columns 4) (\<lambda>c4.
         and_then (column_text columns 5) (\<lambda>c5.
         Inr [(''Offense Date'', c0),
              (''Offense'', c1),
              (''Sentence Date'', c2),
              (''County'', c3),
              (''Case Number'', c4),
              (''Prison Sentence Length'', c5)])))))))"

text \<open>The loop of lines 78 to 88, with \<^verbatim>\<open>sentence_history\<close> as accumulator.\<close>

fun sentence_loop :: "element list \<Rightarrow> entry list \<Rightarrow> pyexn + entry list" where
  "sentence_loop [] sentence_history = Inr sentence_history"
| "sentence_loop (row # rows) sentence_history =
     (case sentence_entry row of
        Inl e \<Rightarrow> Inl e
      | Inr history \<Rightarrow> sentence_loop rows (sentence_history @ [history]))"

text \<open>The body of the loop over the incarceration rows (lines 100 to 104).\<close>

definition incarceration_entry :: "element \<Rightarrow> pyexn + entry" where
  "incarceration_entry row =
     (let columns = row_cells row
      in and_then (column_text columns 0) (\<lambda>c0.
         and_then (column_text columns 1) (\<lambda>c1.
         Inr [(''Date In-Custody'', c0),
              (''Date Out-Custody'', c1)])))"

fun incarceration_loop :: "element list \<Rightarrow> entry list \<Rightarrow> pyexn + entry list" where
  "incarceration_loop [] incarceration_history = Inr incarceration_history"
| "incarceration_loop (row # rows) incarceration_history =
     (case incarceration_entry row of
        Inl e \<Rightarrow> Inl e
      | Inr history \<Rightarrow> incarceration_loop rows (incarceration_history @ [history]))"

text \<open>\<^verbatim>\<open>soup.find('div', {'id': v})\<close>\<close>

definition find_div :: "soup \<Rightarrow> string \<Rightarrow> element option" where
  "find_div soup v = bs_find soup ''div'' (\<lambda>n. get_attr n ''id'' = Some v)"

text \<open>\<^verbatim>\<open>soup.find('div', {'id': v}).find('table').find_all('tr')[1:]\<close>\<close>

definition table_rows :: "soup \<Rightarrow> string \<Rightarrow> pyexn + element list" where
  "table_rows soup v =
     and_then (deref (find_div soup v)) (\<lambda>d.
     and_then (deref (bs_find (contents (fst d)) ''table'' (\<lambda>n. True))) (\<lambda>t.
     Inr (drop 1 (bs_find_all (contents (fst t)) ''tr'' (\<lambda>n. True)))))"

text \<open>\<^verbatim>\<open>soup.title.string\<close>, and the \<^verbatim>\<open>in\<close> test that fails on \<^verbatim>\<open>None\<close>.\<close>

definition title_string :: "soup \<Rightarrow> pyexn + string" where
  "title_string soup =
     and_then (deref (bs_find soup ''title'' (\<lambda>n. True))) (\<lambda>title.
       case tag_string (fst title) of None \<Rightarrow> Inl TypeError | Some s \<Rightarrow> Inr s)"

text \<open>
  Lines 53 to 113 of \<^verbatim>\<open>fetch_inmate_details\<close>, from the parsed response on. The
  result \<open>Inr None\<close> is \<^verbatim>\<open>return None\<close>; \<open>Inr (Some [])\<close> is the empty dict that line 113
  returns when the title test fails. Logging calls are left out.
\<close>

definition inmate_details_of_soup :: "soup \<Rightarrow> string \<Rightarrow> pyexn + doc option" where
  "inmate_details_of_soup soup dc_number =
     and_then (title_string soup) (\<lambda>title.
     if contains title ''Inmate Population Information Detail'' then
       (case bs_find soup ''th'' (\<lambda>n. tag_string n = Some ''Name:'') of
          Some name_element \<Rightarrow>
            and_then (sibling_text name_element) (\<lambda>name.
            and_then (labelled_value soup ''Race:'') (\<lambda>race.
            and_then (labelled_value soup ''Sex:'') (\<lambda>sex.
            and_then (labelled_value soup ''Birth Date:'') (\<lambda>birth_date.
            let inmate_info =
                  [(''DC Number'', Str dc_number),
                   (''Name'', Str name),
                   (''Race'', Str race),
                   (''Sex'', Str sex),
                   (''Birth Date'', Str birth_date)]
            in if name = [] \<or> race = [] then Inr None
               else
                 and_then (table_rows soup ''ctl00_ContentPlaceHolder1_divCurrentPrison'') (\<lambda>rows.
                 and_then (sentence_loop rows []) (\<lambda>sentence_history.
                 let inmate_info =
                       AList.update ''Current Prison Sentence History''
                         (Rows sentence_history) inmate_info
                 in and_then (deref (find_div soup ''ctl00_ContentPlaceHolder1_divAlias'')) (\<lambda>d.
                    and_then (deref (bs_find (contents (fst d)) ''p'' (\<lambda>n. True))) (\<lambda>p.
                    let aliases = strip (get_text (fst p));
                        inmate_info = AList.update ''Aliases'' (Str aliases) inmate_info
                    in and_then (table_rows soup ''ctl00_ContentPlaceHolder1_divIncarceration'') (\<lambda>rows.
                       and_then (incarceration_loop rows []) (\<lambda>incarceration_history.
                       let inmate_info =
                             AList.update ''Incarceration History''
                               (Rows incarceration_history) inmate_info
                       in Inr (Some inmate_info)))))))))))
        | None \<Rightarrow> Inr None)
     else Inr (Some []))"

section \<open>The world the program acts on\<close>

text \<open>
  The three callables that the worker passes to \<^verbatim>\<open>root.after(0, ...)\<close>:
  \<^verbatim>\<open>display_inmate_details\<close> with the record as its argument (line 220), the lambda of
  line 222, and the lambda of line 225. The last one is a closure over the variable
  \<^verbatim>\<open>e\<close> of the \<^verbatim>\<open>except\<close> clause: it holds the variable, not the exception.
\<close>

datatype callback =
    DisplayInmateDetails doc
  | ShowFailedToRetrieve
  | ShowErrorOccurred

text \<open>
  The effects of the program are made explicit in a record: the MongoDB collection, the
  HTTP requests sent, the calls of \<^verbatim>\<open>update_one\<close> issued, the worker threads started
  (with their argument), the message boxes opened (title and message), the record that
  the details frame shows, and the callbacks queued on the Tk event loop with
  \<^verbatim>\<open>root.after(0, ...)\<close>. The message boxes and the details frame are the state of
  the presentation.
\<close>

record world =
  collection :: "doc list"
  requested :: "string list"
  update_calls :: nat
  threads :: "string list"
  dialogs :: "(string \<times> string) list"
  displayed :: "doc option"
  after_queue :: "callback list"

text \<open>
  The environment: what \<^verbatim>\<open>requests.get\<close> followed by the parser yields for a DC number
  (an exception or a tree), and the exception, if any, with which the MongoDB driver
  answers a write.
\<close>

type_synonym web = "string \<Rightarrow> pyexn + soup"

definition fetch_inmate_details ::
    "web \<Rightarrow> string \<Rightarrow> world \<Rightarrow> (pyexn + doc option) \<times> world" where
  "fetch_inmate_details get dc_number w =
     (let w' = w\<lparr>requested := requested w @ [dc_number]\<rparr>
      in (and_then (get dc_number) (\<lambda>soup. inmate_details_of_soup soup dc_number), w'))"

section \<open>Persistence: \<^verbatim>\<open>store_inmate_details\<close>\<close>

text \<open>
  \<^verbatim>\<open>{'$set': new}\<close> applied to a document: each field is assigned in turn; a field
  the document has keeps its place and takes the new value, a new field is appended, and a
  field of the document that the update does not name is left as it is. This is
  \<^verbatim>\<open>$set\<close> for field names without a dot, as the eight names of an extracted record
  are; MongoDB reads a name with a dot as a path into a nested document, which is outside
  this model.
\<close>

definition set_fields :: "doc \<Rightarrow> doc \<Rightarrow> doc" where
  "set_fields new d = fold (\<lambda>kv. AList.update (fst kv) (snd kv)) new d"

text \<open>The filter \<^verbatim>\<open>{'DC Number': key}\<close>.\<close>

definition matches :: "pyval \<Rightarrow> doc \<Rightarrow> bool" where
  "matches key d = (map_of d ''DC Number'' = Some key)"

text \<open>
  \<^verbatim>\<open>update_one({'DC Number': key}, {'$set': new}, upsert=True)\<close> on a collection:
  the first matching document is updated; when none matches, a document made of the
  filter's field and then the \<^verbatim>\<open>$set\<close> fields is inserted. The identifier \<^verbatim>\<open>_id\<close>
  that the server adds to an inserted document is not modelled.
\<close>

fun update_one :: "pyval \<Rightarrow> doc \<Rightarrow> doc list \<Rightarrow> doc list" where
  "update_one key new [] = [set_fields new [(''DC Number'', key)]]"
| "update_one key new (d # ds) =
     (if matches key d then set_fields new d # ds else d # update_one key new ds)"

text \<open>\<^verbatim>\<open>find_one({'DC Number': key})\<close>: the document the store holds under a key.\<close>

definition find_one :: "pyval \<Rightarrow> doc list \<Rightarrow> doc option" where
  "find_one key c = List.find (matches key) c"

text \<open>
  \<^verbatim>\<open>store_inmate_details\<close>: the subscript on line 122 is outside the \<^verbatim>\<open>try\<close>; every
  exception of the driver is caught on line 140, logged, and not raised again.
\<close>

definition store_inmate_details :: "pyexn option \<Rightarrow> doc \<Rightarrow> world \<Rightarrow> pyexn + world" where
  "store_inmate_details fault inmate_info w =
     (case map_of inmate_info ''DC Number'' of
        None \<Rightarrow> Inl KeyError
      | Some key \<Rightarrow>
          (case fault of
             Some e \<Rightarrow> Inr (w\<lparr>update_calls := Suc (update_calls w)\<rparr>)
           | None \<Rightarrow>
               Inr (w\<lparr>collection := update_one key inmate_info (collection w),
                      update_calls := Suc (update_calls w)\<rparr>)))"

section \<open>Orchestration\<close>

text \<open>
  \<^verbatim>\<open>fetch_and_store_inmate_details\<close>, the body of the worker thread. Each of its three
  branches ends in \<^verbatim>\<open>root.after(0, ...)\<close>.
\<close>

definition fetch_and_store_inmate_details ::
    "web \<Rightarrow> pyexn option \<Rightarrow> string \<Rightarrow> world \<Rightarrow> world" where
  "fetch_and_store_inmate_details get fault dc_number w =
     (case fetch_inmate_details get dc_number w of
        (Inl e, w1) \<Rightarrow> w1\<lparr>after_queue := after_queue w1 @ [ShowErrorOccurred]\<rparr>
      | (Inr None, w1) \<Rightarrow> w1\<lparr>after_queue := after_queue w1 @ [ShowFailedToRetrieve]\<rparr>
      | (Inr (Some []), w1) \<Rightarrow> w1\<lparr>after_queue := after_queue w1 @ [ShowFailedToRetrieve]\<rparr>
      | (Inr (Some (f # fs)), w1) \<Rightarrow>
          (case store_inmate_details fault (f # fs) w1 of
             Inl e \<Rightarrow> w1\<lparr>after_queue := after_queue w1 @ [ShowErrorOccurred]\<rparr>
           | Inr w2 \<Rightarrow> w2\<lparr>after_queue := after_queue w2 @ [DisplayInmateDetails (f # fs)]\<rparr>))"

text \<open>
  \<^verbatim>\<open>fetch_and_display_inmate_details\<close>, the button's command, run by the event loop
  itself. Its argument is the content of the entry widget.
\<close>

definition fetch_and_display_inmate_details :: "string \<Rightarrow> world \<Rightarrow> world" where
  "fetch_and_display_inmate_details dc_number w =
     (if dc_number \<noteq> [] then w\<lparr>threads := threads w @ [dc_number]\<rparr>
      else w\<lparr>dialogs := dialogs w @ [(''Input Error'', ''Please enter a DC number.'')]\<rparr>)"

text \<open>
  A queued callback, run by the event loop once the worker has queued it and gone on.
  \<^verbatim>\<open>display_inmate_details\<close> (lines 143 to 199) fills the details frame from the
  record; the widgets are summarised by the record shown. The lambda of line 222 opens
  its error box. The lambda of line 225 reads the variable \<^verbatim>\<open>e\<close> when it runs; Python
  unbinds the target of \<^verbatim>\<open>except ... as e\<close> at the end of the \<^verbatim>\<open>except\<close> clause, so
  the read raises \<^verbatim>\<open>NameError\<close> and no box is opened.
\<close>

definition run_callback :: "callback \<Rightarrow> world \<Rightarrow> pyexn + world" where
  "run_callback cb w =
     (case cb of
        DisplayInmateDetails details \<Rightarrow> Inr (w\<lparr>displayed := Some details\<rparr>)
      | ShowFailedToRetrieve \<Rightarrow>
          Inr (w\<lparr>dialogs := dialogs w @ [(''Error'', ''Failed to retrieve valid inmate details.'')]\<rparr>)
      | ShowErrorOccurred \<Rightarrow> Inl NameError)"

section \<open>Notions used to state the properties\<close>

text \<open>A Python dict has no key twice.\<close>

definition is_dict :: "('k \<times> 'v) list \<Rightarrow> bool" where
  "is_dict d = distinct (map fst d)"

text \<open>The names of the fields of a document.\<close>

definition field_names :: "doc \<Rightarrow> string set" where
  "field_names d = fst ` set d"

text \<open>A string that \<^verbatim>\<open>strip\<close> leaves as it is.\<close>

definition trimmed :: "string \<Rightarrow> bool" where
  "trimmed s = (strip s = s)"

text \<open>
  The tags of one name below an element, in document order: \<^const>\<open>descendants\<close> lists
  a node before its children and before the siblings that follow it.
\<close>

definition tags_below :: "string \<Rightarrow> element \<Rightarrow> element list" where
  "tags_below nm el = filter (\<lambda>d. is_tag nm (fst d)) (descendants (contents (fst el)))"

text \<open>The rows of a table after its header row, in document order.\<close>

definition rows_after_header :: "element \<Rightarrow> element list" where
  "rows_after_header table = tl (tags_below ''tr'' table)"

text \<open>The stripped text of the cell at a position of a row.\<close>

definition cell_text :: "element \<Rightarrow> nat \<Rightarrow> string" where
  "cell_text row i = strip (get_text (fst (tags_below ''td'' row ! i)))"

text \<open>
  The fixed schemas in the words of the specification: the first six cells of a sentence
  row, in order, are offense date, offense, sentence date, county, case number and
  sentence length; the first two cells of an incarceration row are date in and date out.
\<close>

definition sentence_of_row :: "element \<Rightarrow> entry" where
  "sentence_of_row row =
     [(''Offense Date'', cell_text row 0),
      (''Offense'', cell_text row 1),
      (''Sentence Date'', cell_text row 2),
      (''County'', cell_text row 3),
      (''Case Number'', cell_text row 4),
      (''Prison Sentence Length'', cell_text row 5)]"

definition incarceration_of_row :: "element \<Rightarrow> entry" where
  "incarceration_of_row row =
     [(''Date In-Custody'', cell_text row 0),
      (''Date Out-Custody'', cell_text row 1)]"

text \<open>
  The detail-page marker: the document has a title whose \<^verbatim>\<open>.string\<close> contains the
  token that line 56 tests for.
\<close>

definition has_marker :: "soup \<Rightarrow> bool" where
  "has_marker soup =
     (case title_string soup of
        Inl e \<Rightarrow> False
      | Inr t \<Rightarrow> contains t ''Inmate Population Information Detail'')"

text \<open>
  A labelled field is missing when its label or the cell beside it is not found, or the
  cell's stripped text is empty.
\<close>

definition field_missing :: "soup \<Rightarrow> string \<Rightarrow> bool" where
  "field_missing soup label =
     (case labelled_value soup label of Inl e \<Rightarrow> True | Inr v \<Rightarrow> v = [])"

text \<open>
  A value that the test \<^verbatim>\<open>if inmate_details:\<close> of line 217 takes for false:
  \<^verbatim>\<open>None\<close> or a dict without fields. It carries no record.
\<close>

definition falsy :: "doc option \<Rightarrow> bool" where
  "falsy res = (res = None \<or> res = Some [])"

text \<open>
  The queued callbacks that report a failure when they run: the error box of line 222.
  The lambda of line 225 opens no box (see \<^const>\<open>run_callback\<close>).
\<close>

fun is_failure :: "callback \<Rightarrow> bool" where
  "is_failure (DisplayInmateDetails d) = False"
| "is_failure ShowFailedToRetrieve = True"
| "is_failure ShowErrorOccurred = False"

text \<open>A site that answers every request with the same parsed page.\<close>

definition serve :: "soup \<Rightarrow> web" where
  "serve soup = (\<lambda>dc_number. Inr soup)"

text \<open>A world in which nothing has happened yet and the collection is empty.\<close>

definition fresh_world :: world where
  "fresh_world =
     \<lparr>collection = [], requested = [], update_calls = 0, threads = [], dialogs = [],
      displayed = None, after_queue = []\<rparr>"

section \<open>Example documents\<close>

definition field_row :: "string \<Rightarrow> string \<Rightarrow> node" where
  "field_row label v =
     Tag ''tr'' [] [Tag ''th'' [] [NavigableString label], Tag ''td'' [] [NavigableString v]]"

definition header_row :: "string list \<Rightarrow> node" where
  "header_row hs = Tag ''tr'' [] (map (\<lambda>h. Tag ''th'' [] [NavigableString h]) hs)"

definition data_row :: "string list \<Rightarrow> node" where
  "data_row vs = Tag ''tr'' [] (map (\<lambda>v. Tag ''td'' [] [NavigableString v]) vs)"

definition page :: "string \<Rightarrow> node list \<Rightarrow> soup" where
  "page title body =
     [Tag ''html'' []
        [Tag ''head'' [] [Tag ''title'' [] [NavigableString title]],
         Tag ''body'' [] body]]"

definition theft_row :: node where
  "theft_row = data_row [''1/1/2000'', ''Theft'', ''2/1/2000'', '' Dade '', ''00-1'', ''5 Years'']"

definition sentence_header :: node where
  "sentence_header =
     header_row [''Offense Date'', ''Offense'', ''Sentence Date'', ''County'', ''Case No.'',
       ''Prison Sentence Length'']"

definition sentence_table :: node where
  "sentence_table = Tag ''table'' [] [sentence_header, theft_row]"

definition sentence_block :: node where
  "sentence_block =
     Tag ''div'' [(''id'', ''ctl00_ContentPlaceHolder1_divCurrentPrison'')] [sentence_table]"

definition alias_paragraph :: node where
  "alias_paragraph = Tag ''p'' [] [NavigableString '' Jane D. '']"

definition alias_block :: node where
  "alias_block = Tag ''div'' [(''id'', ''ctl00_ContentPlaceHolder1_divAlias'')] [alias_paragraph]"

definition incarceration_header :: node where
  "incarceration_header = header_row [''Date In-Custody'', ''Date Out-Custody'']"

definition incarceration_table :: node where
  "incarceration_table = Tag ''table'' [] [incarceration_header]"

definition incarceration_block :: node where
  "incarceration_block =
     Tag ''div'' [(''id'', ''ctl00_ContentPlaceHolder1_divIncarceration'')] [incarceration_table]"

text \<open>
  Scenario A of the specification: the four labelled fields, one sentence row, an alias
  and no incarceration row. Some of the texts carry blanks at their ends.
\<close>

definition scenario_a :: soup where
  "scenario_a =
     page ''Inmate Population Information Detail''
       [Tag ''table'' []
          [field_row ''Name:'' '' Jane Doe'', field_row ''Race:'' ''White'',
           field_row ''Sex:'' ''Female'', field_row ''Birth Date:'' ''1/1/1980''],
        sentence_block, alias_block, incarceration_block]"

definition jane_doe :: doc where
  "jane_doe =
     [(''DC Number'', Str ''123456''),
      (''Name'', Str ''Jane Doe''),
      (''Race'', Str ''White''),
      (''Sex'', Str ''Female''),
      (''Birth Date'', Str ''1/1/1980''),
      (''Current Prison Sentence History'',
       Rows [[(''Offense Date'', ''1/1/2000''),
              (''Offense'', ''Theft''),
              (''Sentence Date'', ''2/1/2000''),
              (''County'', ''Dade''),
              (''Case Number'', ''00-1''),
              (''Prison Sentence Length'', ''5 Years'')]]),
      (''Aliases'', Str ''Jane D.''),
      (''Incarceration History'', Rows [])]"

text \<open>
  A later page of the same DC number: another name, two sentence rows and two
  incarceration rows, so that the order of the rows shows in the record.
\<close>

definition fraud_row :: node where
  "fraud_row = data_row [''3/3/2003'', ''Fraud'', ''4/4/2003'', ''Duval'', ''03-7'', ''2 Years'']"

definition long_sentence_table :: node where
  "long_sentence_table = Tag ''table'' [] [sentence_header, theft_row, fraud_row]"

definition first_custody_row :: node where
  "first_custody_row = data_row [''5/5/2000'', ''6/6/2002'']"

definition second_custody_row :: node where
  "second_custody_row = data_row [''7/7/2003'', '' Currently Incarcerated'']"

definition long_incarceration_table :: node where
  "long_incarceration_table =
     Tag ''table'' [] [incarceration_header, first_custody_row, second_custody_row]"

definition long_incarceration_block :: node where
  "long_incarceration_block =
     Tag ''div'' [(''id'', ''ctl00_ContentPlaceHolder1_divIncarceration'')]
       [long_incarceration_table]"

definition long_sentence_block :: node where
  "long_sentence_block =
     Tag ''div'' [(''id'', ''ctl00_ContentPlaceHolder1_divCurrentPrison'')] [long_sentence_table]"

definition history_page :: soup where
  "history_page =
     page ''Inmate Population Information Detail''
       [Tag ''table'' []
          [field_row ''Name:'' ''Jane Roe'', field_row ''Race:'' ''White'',
           field_row ''Sex:'' ''Female'', field_row ''Birth Date:'' ''1/1/1980''],
        long_sentence_block, alias_block, long_incarceration_block]"

definition jane_roe :: doc where
  "jane_roe =
     [(''DC Number'', Str ''123456''),
      (''Name'', Str ''Jane Roe''),
      (''Race'', Str ''White''),
      (''Sex'', Str ''Female''),
      (''Birth Date'', Str ''1/1/1980''),
      (''Current Prison Sentence History'',
       Rows [[(''Offense Date'', ''1/1/2000''),
              (''Offense'', ''Theft''),
              (''Sentence Date'', ''2/1/2000''),
              (''County'', ''Dade''),
              (''Case Number'', ''00-1''),
              (''Prison Sentence Length'', ''5 Years'')],
             [(''Offense Date'', ''3/3/2003''),
              (''Offense'', ''Fraud''),
              (''Sentence Date'', ''4/4/2003''),
              (''County'', ''Duval''),
              (''Case Number'', ''03-7''),
              (''Prison Sentence Length'', ''2 Years'')]]),
      (''Aliases'', Str ''Jane D.''),
      (''Incarceration History'',
       Rows [[(''Date In-Custody'', ''5/5/2000''),
              (''Date Out-Custody'', ''6/6/2002'')],
             [(''Date In-Custody'', ''7/7/2003''),
              (''Date Out-Custody'', ''Currently Incarcerated'')]])]"

text \<open>Scenario C: the marker is there, the row labelled \<^verbatim>\<open>Race:\<close> is not.\<close>

definition scenario_c :: soup where
  "scenario_c =
     page ''Inmate Population Information Detail''
       [Tag ''table'' []
          [field_row ''Name:'' ''Jane Doe'',
           field_row ''Sex:'' ''Female'', field_row ''Birth Date:'' ''1/1/1980''],
        sentence_block, alias_block, incarceration_block]"

text \<open>The marker is there, the row labelled \<^verbatim>\<open>Name:\<close> is not.\<close>

definition no_name_page :: soup where
  "no_name_page =
     page ''Inmate Population Information Detail''
       [Tag ''table'' []
          [field_row ''Race:'' ''White'',
           field_row ''Sex:'' ''Female'', field_row ''Birth Date:'' ''1/1/1980''],
        sentence_block, alias_block, incarceration_block]"

text \<open>All four rows are there, the cell beside \<^verbatim>\<open>Race:\<close> holds blanks only.\<close>

definition blank_race_page :: soup where
  "blank_race_page =
     page ''Inmate Population Information Detail''
       [Tag ''table'' []
          [field_row ''Name:'' ''Jane Doe'', field_row ''Race:'' ''  '',
           field_row ''Sex:'' ''Female'', field_row ''Birth Date:'' ''1/1/1980''],
        sentence_block, alias_block, incarceration_block]"

text \<open>Scenario A without its alias block.\<close>

definition no_alias_page :: soup where
  "no_alias_page =
     page ''Inmate Population Information Detail''
       [Tag ''table'' []
          [field_row ''Name:'' ''Jane Doe'', field_row ''Race:'' ''White'',
           field_row ''Sex:'' ''Female'', field_row ''Birth Date:'' ''1/1/1980''],
        sentence_block, incarceration_block]"

text \<open>A page with another title, and a response without any title.\<close>

definition not_found_page :: soup where
  "not_found_page = page ''Offender Search'' [NavigableString ''No records found.'']"

definition no_title_page :: soup where
  "no_title_page = [Tag ''html'' [] [Tag ''body'' [] [NavigableString ''Service Unavailable'']]]"

definition newer_record :: doc where
  "newer_record = [(''DC Number'', Str ''123456''), (''Name'', Str ''Jane Roe'')]"

section \<open>Properties of \<^verbatim>\<open>$set\<close> and of the upsert\<close>

lemma map_of_set_fields_other:
  "k \<notin> fst ` set new \<Longrightarrow> map_of (set_fields new d) k = map_of d k"
  unfolding set_fields_def
  by (induction new arbitrary: d) (auto simp: AList.update_conv')

lemma keys_set_fields: "fst ` set (set_fields new d) = fst ` set d \<union> fst ` set new"
  unfolding set_fields_def
proof (induction new arbitrary: d)
  case Nil
  show ?case by simp
next
  case (Cons kv new)
  have "fst ` set (AList.update (fst kv) (snd kv) d) = insert (fst kv) (fst ` set d)"
    by (induction d) auto
  with Cons show ?case by auto
qed

lemma map_of_set_fields:
  "distinct (map fst new) \<Longrightarrow> map_of (set_fields new d) = map_of d ++ map_of new"
proof (induction new arbitrary: d)
  case Nil
  show ?case by (simp add: set_fields_def)
next
  case (Cons kv new)
  then have none: "map_of new (fst kv) = None"
    by (simp add: map_of_eq_None_iff)
  have "(map_of d)(fst kv \<mapsto> snd kv) ++ map_of new = map_of d ++ map_of (kv # new)"
    using none by (cases kv) (auto simp: map_add_def fun_eq_iff split: option.splits)
  moreover have "set_fields (kv # new) d = set_fields new (AList.update (fst kv) (snd kv) d)"
    by (simp add: set_fields_def)
  moreover have "map_of (set_fields new (AList.update (fst kv) (snd kv) d)) =
      (map_of d)(fst kv \<mapsto> snd kv) ++ map_of new"
    using Cons by (simp add: AList.update_conv')
  ultimately show ?case by metis
qed

lemma update_keep_place:
  "k \<noteq> k' \<Longrightarrow> k \<in> fst ` set al \<Longrightarrow>
   AList.update k' v' (AList.update k v al) = AList.update k v (AList.update k' v' al)"
  by (induction al) auto

lemma update_keys_present: "k \<in> fst ` set al \<Longrightarrow> k \<in> fst ` set (AList.update k' v' al)"
  by (induction al) auto

lemma set_fields_absorbs:
  "k \<in> fst ` set new \<Longrightarrow> k \<in> fst ` set al \<Longrightarrow>
   set_fields new (AList.update k v al) = set_fields new al"
  unfolding set_fields_def
proof (induction new arbitrary: al)
  case Nil
  then show ?case by simp
next
  case (Cons kv new)
  show ?case
  proof (cases "fst kv = k")
    case True
    then show ?thesis by simp
  next
    case False
    with Cons.prems have k: "k \<in> fst ` set new" by auto
    from False Cons.prems(2)
    have "AList.update (fst kv) (snd kv) (AList.update k v al) =
          AList.update k v (AList.update (fst kv) (snd kv) al)"
      by (simp add: update_keep_place)
    moreover have "k \<in> fst ` set (AList.update (fst kv) (snd kv) al)"
      using Cons.prems(2) by (rule update_keys_present)
    ultimately show ?thesis using Cons.IH [OF k] by simp
  qed
qed

lemma set_fields_idem: "set_fields new (set_fields new d) = set_fields new d"
proof (induction new arbitrary: d)
  case Nil
  show ?case by (simp add: set_fields_def)
next
  case (Cons kv new)
  define e where "e = AList.update (fst kv) (snd kv) d"
  have step: "set_fields (kv # new) x = set_fields new (AList.update (fst kv) (snd kv) x)" for x
    by (simp add: set_fields_def)
  have "fst kv \<in> fst ` set e"
    unfolding e_def by (induction d) auto
  then have in_e: "fst kv \<in> fst ` set (set_fields new e)"
    by (simp add: keys_set_fields)
  have "set_fields new (AList.update (fst kv) (snd kv) (set_fields new e)) = set_fields new e"
  proof (cases "fst kv \<in> fst ` set new")
    case True
    then show ?thesis using in_e Cons.IH by (simp add: set_fields_absorbs)
  next
    case False
    then have "map_of (set_fields new e) (fst kv) = Some (snd kv)"
      by (simp add: map_of_set_fields_other e_def AList.update_conv')
    then have "AList.update (fst kv) (snd kv) (set_fields new e) = set_fields new e"
      by (rule AList.update_triv)
    then show ?thesis using Cons.IH by simp
  qed
  then show ?case by (simp add: step e_def)
qed

lemma matches_set_fields:
  "distinct (map fst new) \<Longrightarrow> map_of new ''DC Number'' = Some key \<Longrightarrow>
   matches key (set_fields new d)"
  by (simp add: matches_def map_of_set_fields map_add_def)

lemma update_one_idem:
  "distinct (map fst new) \<Longrightarrow> map_of new ''DC Number'' = Some key \<Longrightarrow>
   update_one key new (update_one key new c) = update_one key new c"
  by (induction c) (simp_all add: matches_set_fields set_fields_idem)

lemma find_one_update_one:
  "distinct (map fst new) \<Longrightarrow> map_of new ''DC Number'' = Some key \<Longrightarrow>
   find_one key (update_one key new c) =
     Some (set_fields new (case find_one key c of None \<Rightarrow> [(''DC Number'', key)] | Some d \<Rightarrow> d))"
  by (induction c) (simp_all add: find_one_def matches_set_fields)

section \<open>Persistence\<close>

text \<open>
  Claim C7: storing the same dict twice leaves the collection as storing it once does,
  whether the driver raises or not.
\<close>

theorem upsert_idempotent:
  assumes "is_dict r" and "map_of r ''DC Number'' = Some key"
  shows "\<exists>w1 w2. store_inmate_details fault r w = Inr w1 \<and>
           store_inmate_details fault r w1 = Inr w2 \<and>
           collection w2 = collection w1"
  using assms
  by (cases fault) (simp_all add: store_inmate_details_def is_dict_def update_one_idem)

theorem upsert_idempotent_witness:
  "is_dict newer_record \<and> map_of newer_record ''DC Number'' = Some (Str ''123456'') \<and>
   (\<exists>w1 w2. store_inmate_details None newer_record fresh_world = Inr w1 \<and>
      store_inmate_details None newer_record w1 = Inr w2 \<and>
      collection w2 = collection w1)"
proof -
  have d: "is_dict newer_record" by (simp add: is_dict_def newer_record_def)
  have k: "map_of newer_record ''DC Number'' = Some (Str ''123456'')"
    by (simp add: newer_record_def)
  from upsert_idempotent [OF d k, of None fresh_world] d k show ?thesis by blast
qed

section \<open>Properties of the extraction\<close>

lemma strip_idem: "strip (strip s) = strip s"
proof -
  define t where "t = dropWhile isspace s"
  define u where "u = rev (dropWhile isspace (rev t))"
  have split_t: "t = u @ rev (takeWhile isspace (rev t))"
  proof -
    have "t = rev (takeWhile isspace (rev t) @ dropWhile isspace (rev t))"
      by (simp only: takeWhile_dropWhile_id rev_rev_ident)
    also have "\<dots> = rev (dropWhile isspace (rev t)) @ rev (takeWhile isspace (rev t))"
      by (rule rev_append)
    finally show ?thesis unfolding u_def .
  qed
  have head: "dropWhile isspace u = u"
  proof (cases u)
    case Nil
    then show ?thesis by simp
  next
    case (Cons c cs)
    with split_t have "hd t = c" and "t \<noteq> []" by (cases t; simp)+
    moreover have "t \<noteq> [] \<Longrightarrow> \<not> isspace (hd t)"
      unfolding t_def by (rule hd_dropWhile)
    ultimately show ?thesis using Cons by simp
  qed
  have tail: "dropWhile isspace (rev u) = rev u"
    by (simp add: u_def dropWhile_idem)
  have "strip s = u" by (simp add: strip_def t_def u_def)
  moreover have "strip u = u" by (simp add: strip_def head tail)
  ultimately show ?thesis by simp
qed

lemma trimmed_strip: "trimmed (strip s)"
  by (simp add: trimmed_def strip_idem)

lemma row_cells_below: "row_cells row = tags_below ''td'' row"
  by (simp add: row_cells_def tags_below_def bs_find_all_def)

lemma column_text_ok: "i < length columns \<Longrightarrow>
  column_text columns i = Inr (strip (get_text (fst (columns ! i))))"
  by (simp add: column_text_def item_def and_then_def)

lemma column_text_Inr: "column_text columns i = Inr v \<Longrightarrow>
  i < length columns \<and> v = strip (get_text (fst (columns ! i)))"
  by (auto simp: column_text_def item_def and_then_def split: if_splits)

lemma sentence_entry_ok:
  assumes "6 \<le> length (row_cells row)"
  shows "sentence_entry row = Inr (sentence_of_row row)"
proof -
  have "column_text (row_cells row) i = Inr (cell_text row i)" if "i < 6" for i
    using that assms by (simp add: column_text_ok cell_text_def row_cells_below)
  then show ?thesis
    by (simp add: sentence_entry_def sentence_of_row_def and_then_def Let_def)
qed

lemma sentence_entry_Inr:
  "sentence_entry row = Inr e \<Longrightarrow> e = sentence_of_row row"
  by (auto simp: sentence_entry_def sentence_of_row_def cell_text_def and_then_def Let_def
      row_cells_below
      split: sum.splits dest!: column_text_Inr)

lemma incarceration_entry_ok:
  assumes "2 \<le> length (row_cells row)"
  shows "incarceration_entry row = Inr (incarceration_of_row row)"
proof -
  have "column_text (row_cells row) i = Inr (cell_text row i)" if "i < 2" for i
    using that assms by (simp add: column_text_ok cell_text_def row_cells_below)
  then show ?thesis
    by (simp add: incarceration_entry_def incarceration_of_row_def and_then_def Let_def)
qed

lemma incarceration_entry_Inr:
  "incarceration_entry row = Inr e \<Longrightarrow> e = incarceration_of_row row"
  by (auto simp: incarceration_entry_def incarceration_of_row_def cell_text_def and_then_def Let_def
      row_cells_below
      split: sum.splits dest!: column_text_Inr)

lemma sentence_loop_ok:
  "\<forall>row \<in> set rows. 6 \<le> length (row_cells row) \<Longrightarrow>
   sentence_loop rows acc = Inr (acc @ map sentence_of_row rows)"
  by (induction rows arbitrary: acc) (simp_all add: sentence_entry_ok)

lemma sentence_loop_Inr:
  "sentence_loop rows acc = Inr sh \<Longrightarrow> sh = acc @ map sentence_of_row rows"
proof (induction rows arbitrary: acc)
  case Nil
  then show ?case by simp
next
  case (Cons row rows)
  from Cons.prems obtain e where e: "sentence_entry row = Inr e"
    and rest: "sentence_loop rows (acc @ [e]) = Inr sh"
    by (auto split: sum.splits)
  from e have "e = sentence_of_row row" by (rule sentence_entry_Inr)
  with Cons.IH [OF rest] show ?case by simp
qed

lemma incarceration_loop_ok:
  "\<forall>row \<in> set rows. 2 \<le> length (row_cells row) \<Longrightarrow>
   incarceration_loop rows acc = Inr (acc @ map incarceration_of_row rows)"
  by (induction rows arbitrary: acc) (simp_all add: incarceration_entry_ok)

lemma incarceration_loop_Inr:
  "incarceration_loop rows acc = Inr ih \<Longrightarrow> ih = acc @ map incarceration_of_row rows"
proof (induction rows arbitrary: acc)
  case Nil
  then show ?case by simp
next
  case (Cons row rows)
  from Cons.prems obtain e where e: "incarceration_entry row = Inr e"
    and rest: "incarceration_loop rows (acc @ [e]) = Inr ih"
    by (auto split: sum.splits)
  from e have "e = incarceration_of_row row" by (rule incarceration_entry_Inr)
  with Cons.IH [OF rest] show ?case by simp
qed

lemma sibling_text_trimmed: "sibling_text el = Inr v \<Longrightarrow> trimmed v"
  by (auto simp: sibling_text_def and_then_def trimmed_strip split: sum.splits)

lemma labelled_value_trimmed: "labelled_value soup l = Inr v \<Longrightarrow> trimmed v"
  by (auto simp: labelled_value_def and_then_def split: sum.splits dest: sibling_text_trimmed)

lemma labelled_value_found:
  "labelled_value soup l = Inr v \<Longrightarrow>
   \<exists>el. bs_find soup ''th'' (\<lambda>n. tag_string n = Some l) = Some el \<and> sibling_text el = Inr v"
  by (auto simp: labelled_value_def and_then_def deref_def split: option.splits)

lemma labelled_value_of_found:
  "bs_find soup ''th'' (\<lambda>n. tag_string n = Some l) = Some el \<Longrightarrow>
   labelled_value soup l = sibling_text el"
  by (simp add: labelled_value_def and_then_def deref_def)

lemma labelled_value_absent:
  "bs_find soup ''th'' (\<lambda>n. tag_string n = Some l) = None \<Longrightarrow>
   labelled_value soup l = Inl AttributeError"
  by (simp add: labelled_value_def and_then_def deref_def)

lemma labelled_value_Inl: "labelled_value soup l = Inl e \<Longrightarrow> e = AttributeError"
  by (auto simp: labelled_value_def sibling_text_def and_then_def deref_def split: option.splits)

lemma inmate_details_success:
  assumes "title_string soup = Inr t"
    and "contains t ''Inmate Population Information Detail''"
    and "labelled_value soup ''Name:'' = Inr name"
    and "labelled_value soup ''Race:'' = Inr race"
    and "labelled_value soup ''Sex:'' = Inr sex"
    and "labelled_value soup ''Birth Date:'' = Inr birth_date"
    and "name \<noteq> []" and "race \<noteq> []"
    and "table_rows soup ''ctl00_ContentPlaceHolder1_divCurrentPrison'' = Inr srows"
    and "sentence_loop srows [] = Inr sh"
    and "find_div soup ''ctl00_ContentPlaceHolder1_divAlias'' = Some d"
    and "bs_find (contents (fst d)) ''p'' (\<lambda>n. True) = Some p"
    and "table_rows soup ''ctl00_ContentPlaceHolder1_divIncarceration'' = Inr irows"
    and "incarceration_loop irows [] = Inr ih"
  shows "inmate_details_of_soup soup k =
     Inr (Some [(''DC Number'', Str k),
                (''Name'', Str name),
                (''Race'', Str race),
                (''Sex'', Str sex),
                (''Birth Date'', Str birth_date),
                (''Current Prison Sentence History'', Rows sh),
                (''Aliases'', Str (strip (get_text (fst p)))),
                (''Incarceration History'', Rows ih)])"
proof -
  from assms(3) obtain el where
    "bs_find soup ''th'' (\<lambda>n. tag_string n = Some ''Name:'') = Some el"
    "sibling_text el = Inr name"
    by (auto dest: labelled_value_found)
  with assms show ?thesis
    by (simp add: inmate_details_of_soup_def and_then_def deref_def Let_def)
qed

lemma inmate_details_shape:
  assumes "inmate_details_of_soup soup k = Inr (Some r)" and "r \<noteq> []"
  shows "\<exists>t name race sex birth_date srows sh d p irows ih.
     title_string soup = Inr t \<and>
     contains t ''Inmate Population Information Detail'' \<and>
     labelled_value soup ''Name:'' = Inr name \<and>
     labelled_value soup ''Race:'' = Inr race \<and>
     labelled_value soup ''Sex:'' = Inr sex \<and>
     labelled_value soup ''Birth Date:'' = Inr birth_date \<and>
     name \<noteq> [] \<and> race \<noteq> [] \<and>
     table_rows soup ''ctl00_ContentPlaceHolder1_divCurrentPrison'' = Inr srows \<and>
     sentence_loop srows [] = Inr sh \<and>
     find_div soup ''ctl00_ContentPlaceHolder1_divAlias'' = Some d \<and>
     bs_find (contents (fst d)) ''p'' (\<lambda>n. True) = Some p \<and>
     table_rows soup ''ctl00_ContentPlaceHolder1_divIncarceration'' = Inr irows \<and>
     incarceration_loop irows [] = Inr ih \<and>
     r = [(''DC Number'', Str k),
          (''Name'', Str name),
          (''Race'', Str race),
          (''Sex'', Str sex),
          (''Birth Date'', Str birth_date),
          (''Current Prison Sentence History'', Rows sh),
          (''Aliases'', Str (strip (get_text (fst p)))),
          (''Incarceration History'', Rows ih)]"
  using assms
  by (auto simp: inmate_details_of_soup_def and_then_def deref_def Let_def labelled_value_of_found
      split: sum.splits option.splits if_splits)

lemma has_marker_title:
  "has_marker soup \<Longrightarrow>
   \<exists>t. title_string soup = Inr t \<and> contains t ''Inmate Population Information Detail''"
  by (auto simp: has_marker_def split: sum.splits)

lemma title_raises: "title_string soup = Inl e \<Longrightarrow> inmate_details_of_soup soup k = Inl e"
  by (simp add: inmate_details_of_soup_def and_then_def)

lemma title_without_marker:
  "title_string soup = Inr t \<Longrightarrow> \<not> contains t ''Inmate Population Information Detail'' \<Longrightarrow>
   inmate_details_of_soup soup k = Inr (Some [])"
  by (simp add: inmate_details_of_soup_def and_then_def)

lemma name_label_absent:
  "has_marker soup \<Longrightarrow> bs_find soup ''th'' (\<lambda>n. tag_string n = Some ''Name:'') = None \<Longrightarrow>
   inmate_details_of_soup soup k = Inr None"
  by (auto simp: inmate_details_of_soup_def and_then_def dest!: has_marker_title)

lemma field_empty:
  assumes "has_marker soup"
    and "labelled_value soup ''Name:'' = Inr name"
    and "labelled_value soup ''Race:'' = Inr race"
    and "labelled_value soup ''Sex:'' = Inr sex"
    and "labelled_value soup ''Birth Date:'' = Inr birth_date"
    and "name = [] \<or> race = []"
  shows "inmate_details_of_soup soup k = Inr None"
proof -
  from assms(1) obtain t where t: "title_string soup = Inr t"
    "contains t ''Inmate Population Information Detail''"
    by (auto dest: has_marker_title)
  from assms(2) obtain el where
    "bs_find soup ''th'' (\<lambda>n. tag_string n = Some ''Name:'') = Some el"
    "sibling_text el = Inr name"
    by (auto dest: labelled_value_found)
  with t assms(3-6) show ?thesis
    by (auto simp: inmate_details_of_soup_def and_then_def Let_def)
qed

section \<open>Properties of the worker\<close>


lemma worker_extraction_raises:
  "get k = Inr soup \<Longrightarrow> inmate_details_of_soup soup k = Inl e \<Longrightarrow>
   fetch_and_store_inmate_details get fault k w =
     w\<lparr>requested := requested w @ [k], after_queue := after_queue w @ [ShowErrorOccurred]\<rparr>"
  by (simp add: fetch_and_store_inmate_details_def fetch_inmate_details_def and_then_def)

lemma worker_none:
  "get k = Inr soup \<Longrightarrow> inmate_details_of_soup soup k = Inr None \<Longrightarrow>
   fetch_and_store_inmate_details get fault k w =
     w\<lparr>requested := requested w @ [k], after_queue := after_queue w @ [ShowFailedToRetrieve]\<rparr>"
  by (simp add: fetch_and_store_inmate_details_def fetch_inmate_details_def and_then_def)

lemma worker_empty_dict:
  "get k = Inr soup \<Longrightarrow> inmate_details_of_soup soup k = Inr (Some []) \<Longrightarrow>
   fetch_and_store_inmate_details get fault k w =
     w\<lparr>requested := requested w @ [k], after_queue := after_queue w @ [ShowFailedToRetrieve]\<rparr>"
  by (simp add: fetch_and_store_inmate_details_def fetch_inmate_details_def and_then_def)

lemma record_has_key:
  assumes "inmate_details_of_soup soup k = Inr (Some r)" and "r \<noteq> []"
  shows "map_of r ''DC Number'' = Some (Str k)"
  using inmate_details_shape [OF assms] by auto

lemma worker_record:
  assumes "get k = Inr soup" and "inmate_details_of_soup soup k = Inr (Some r)" and "r \<noteq> []"
  shows "fetch_and_store_inmate_details get fault k w =
     w\<lparr>requested := requested w @ [k],
       collection := (case fault of None \<Rightarrow> update_one (Str k) r (collection w)
                      | Some e \<Rightarrow> collection w),
       update_calls := Suc (update_calls w),
       after_queue := after_queue w @ [DisplayInmateDetails r]\<rparr>"
proof -
  obtain f fs where r: "r = f # fs" using assms(3) by (cases r) auto
  have key: "map_of (f # fs) ''DC Number'' = Some (Str k)"
    using record_has_key [OF assms(2,3)] r by simp
  show ?thesis
    using assms(1,2) key unfolding r
    by (cases fault)
      (simp_all add: fetch_and_store_inmate_details_def fetch_inmate_details_def and_then_def
        store_inmate_details_def)
qed

section \<open>Orchestration: the claims\<close>

text \<open>
  Claim C8: for the empty key the request is rejected on the spot. The command opens the
  warning box titled \<^verbatim>\<open>Input Error\<close> itself; it starts no thread, so nothing is
  fetched, stored or queued.
\<close>

theorem empty_key_rejected:
  "fetch_and_display_inmate_details '''' w =
     w\<lparr>dialogs := dialogs w @ [(''Input Error'', ''Please enter a DC number.'')]\<rparr> \<and>
   threads (fetch_and_display_inmate_details '''' w) = threads w \<and>
   requested (fetch_and_display_inmate_details '''' w) = requested w \<and>
   collection (fetch_and_display_inmate_details '''' w) = collection w \<and>
   update_calls (fetch_and_display_inmate_details '''' w) = update_calls w \<and>
   after_queue (fetch_and_display_inmate_details '''' w) = after_queue w"
  by (simp add: fetch_and_display_inmate_details_def)

theorem empty_key_rejected_witness:
  "fetch_and_display_inmate_details '''' fresh_world =
     fresh_world\<lparr>dialogs := [(''Input Error'', ''Please enter a DC number.'')]\<rparr>"
  using empty_key_rejected [of fresh_world] by (simp add: fresh_world_def)

text \<open>
  Claim C4, as stated: a failing write surfaces as a storage error to the worker, which
  turns it into a failure notification. In the code the exception of the driver is caught
  inside \<^verbatim>\<open>store_inmate_details\<close>: for Scenario A with a failing driver the worker
  queues the display of the record, not a failure.
\<close>

theorem storage_error_counterexample:
  "fetch_and_store_inmate_details (serve scenario_a) (Some PyMongoError) ''123456'' fresh_world =
     fresh_world\<lparr>requested := [''123456''], update_calls := 1,
       after_queue := [DisplayInmateDetails jane_doe]\<rparr> \<and>
   \<not> is_failure (DisplayInmateDetails jane_doe)"
  by code_simp

text \<open>
  Claim C4, amended: when the write fails, \<^verbatim>\<open>store_inmate_details\<close> returns normally
  after one call of \<^verbatim>\<open>update_one\<close> (no retry) and leaves the collection as it was; the
  worker then queues the display of the extracted record, as it does after a successful
  write, and no failure notification.
\<close>

theorem storage_failure_swallowed:
  assumes "get k = Inr soup" and "inmate_details_of_soup soup k = Inr (Some r)" and "r \<noteq> []"
  shows "store_inmate_details (Some e) r w = Inr (w\<lparr>update_calls := Suc (update_calls w)\<rparr>) \<and>
     fetch_and_store_inmate_details get (Some e) k w =
       w\<lparr>requested := requested w @ [k],
         update_calls := Suc (update_calls w),
         after_queue := after_queue w @ [DisplayInmateDetails r]\<rparr>"
  using assms record_has_key [OF assms(2,3)]
  by (simp add: worker_record store_inmate_details_def)

theorem storage_failure_swallowed_witness:
  "serve scenario_a ''123456'' = Inr scenario_a \<and>
   inmate_details_of_soup scenario_a ''123456'' = Inr (Some jane_doe) \<and>
   jane_doe \<noteq> [] \<and>
   store_inmate_details (Some PyMongoError) jane_doe fresh_world =
     Inr (fresh_world\<lparr>update_calls := 1\<rparr>) \<and>
   fetch_and_store_inmate_details (serve scenario_a) (Some PyMongoError) ''123456'' fresh_world =
     fresh_world\<lparr>requested := [''123456''], update_calls := 1,
       after_queue := [DisplayInmateDetails jane_doe]\<rparr>"
proof -
  have a: "serve scenario_a ''123456'' = Inr scenario_a" by (simp add: serve_def)
  have b: "inmate_details_of_soup scenario_a ''123456'' = Inr (Some jane_doe)" by code_simp
  have c: "jane_doe \<noteq> []" by (simp add: jane_doe_def)
  from storage_failure_swallowed
    [of "serve scenario_a" "''123456''" scenario_a jane_doe PyMongoError fresh_world] a b c
  show ?thesis by (simp add: fresh_world_def)
qed

section \<open>Further properties of the extraction\<close>

lemma table_rows_Inl: "table_rows soup v = Inl e \<Longrightarrow> e = AttributeError"
  by (auto simp: table_rows_def and_then_def deref_def split: option.splits)

lemma column_text_Inl: "column_text columns i = Inl e \<Longrightarrow> e = IndexError"
  by (auto simp: column_text_def item_def and_then_def split: if_splits)

lemma sentence_entry_Inl: "sentence_entry row = Inl e \<Longrightarrow> e = IndexError"
  by (auto simp: sentence_entry_def and_then_def Let_def split: sum.splits dest: column_text_Inl)

lemma sentence_loop_Inl: "sentence_loop rows acc = Inl e \<Longrightarrow> e = IndexError"
  by (induction rows arbitrary: acc) (auto split: sum.splits dest: sentence_entry_Inl)

lemma alias_absent_result:
  assumes "has_marker soup"
    and "labelled_value soup ''Name:'' = Inr name"
    and "labelled_value soup ''Race:'' = Inr race"
    and "labelled_value soup ''Sex:'' = Inr sex"
    and "labelled_value soup ''Birth Date:'' = Inr birth_date"
    and "name \<noteq> []" and "race \<noteq> []"
    and "find_div soup ''ctl00_ContentPlaceHolder1_divAlias'' = None \<or>
         (\<exists>d. find_div soup ''ctl00_ContentPlaceHolder1_divAlias'' = Some d \<and>
              bs_find (contents (fst d)) ''p'' (\<lambda>n. True) = None)"
  shows "inmate_details_of_soup soup k =
     (case table_rows soup ''ctl00_ContentPlaceHolder1_divCurrentPrison'' of
        Inl e \<Rightarrow> Inl e
      | Inr srows \<Rightarrow>
          (case sentence_loop srows [] of Inl e \<Rightarrow> Inl e | Inr sh \<Rightarrow> Inl AttributeError))"
proof -
  from assms(1) obtain t where t: "title_string soup = Inr t"
    "contains t ''Inmate Population Information Detail''"
    by (auto dest: has_marker_title)
  from assms(2) obtain el where el:
    "bs_find soup ''th'' (\<lambda>n. tag_string n = Some ''Name:'') = Some el"
    "sibling_text el = Inr name"
    by (auto dest: labelled_value_found)
  from assms(8) show ?thesis
    using t el assms(3-7)
    by (auto simp: inmate_details_of_soup_def and_then_def deref_def Let_def
        split: sum.splits)
qed

lemma sentence_of_row_trimmed: "\<forall>fv \<in> set (sentence_of_row row). trimmed (snd fv)"
  by (simp add: sentence_of_row_def cell_text_def trimmed_strip)

lemma incarceration_of_row_trimmed: "\<forall>fv \<in> set (incarceration_of_row row). trimmed (snd fv)"
  by (simp add: incarceration_of_row_def cell_text_def trimmed_strip)

section \<open>The strings of a record\<close>

text \<open>
  Claim C10: in every record that the extraction returns, the name, race, sex, birth date
  and aliases, and every value of every sentence and incarceration entry, are left
  unchanged by \<^verbatim>\<open>strip\<close>.
\<close>

theorem extracted_strings_trimmed:
  assumes "inmate_details_of_soup soup k = Inr (Some r)" and "r \<noteq> []"
  shows "\<exists>name race sex birth_date aliases sh ih.
     r = [(''DC Number'', Str k),
          (''Name'', Str name),
          (''Race'', Str race),
          (''Sex'', Str sex),
          (''Birth Date'', Str birth_date),
          (''Current Prison Sentence History'', Rows sh),
          (''Aliases'', Str aliases),
          (''Incarceration History'', Rows ih)] \<and>
     trimmed name \<and> trimmed race \<and> trimmed sex \<and> trimmed birth_date \<and> trimmed aliases \<and>
     (\<forall>e \<in> set sh. \<forall>fv \<in> set e. trimmed (snd fv)) \<and>
     (\<forall>e \<in> set ih. \<forall>fv \<in> set e. trimmed (snd fv))"
proof -
  from inmate_details_shape [OF assms] show ?thesis
  proof (elim exE conjE)
    fix t name race sex birth_date srows sh d p irows ih
    assume v: "labelled_value soup ''Name:'' = Inr name"
      "labelled_value soup ''Race:'' = Inr race"
      "labelled_value soup ''Sex:'' = Inr sex"
      "labelled_value soup ''Birth Date:'' = Inr birth_date"
      and sl: "sentence_loop srows [] = Inr sh"
      and il: "incarceration_loop irows [] = Inr ih"
      and r: "r = [(''DC Number'', Str k),
          (''Name'', Str name),
          (''Race'', Str race),
          (''Sex'', Str sex),
          (''Birth Date'', Str birth_date),
          (''Current Prison Sentence History'', Rows sh),
          (''Aliases'', Str (strip (get_text (fst p)))),
          (''Incarceration History'', Rows ih)]"
    from v have tv: "trimmed name" "trimmed race" "trimmed sex" "trimmed birth_date"
      by (auto dest: labelled_value_trimmed)
    from sl have "sh = [] @ map sentence_of_row srows"
      by (rule sentence_loop_Inr)
    then have ts: "\<forall>e \<in> set sh. \<forall>fv \<in> set e. trimmed (snd fv)"
      by (simp add: sentence_of_row_trimmed)
    from il have "ih = [] @ map incarceration_of_row irows"
      by (rule incarceration_loop_Inr)
    then have ti: "\<forall>e \<in> set ih. \<forall>fv \<in> set e. trimmed (snd fv)"
      by (simp add: incarceration_of_row_trimmed)
    have ta: "trimmed (strip (get_text (fst p)))" by (rule trimmed_strip)
    show ?thesis
      unfolding r using tv ta ts ti by simp
  qed
qed

theorem extracted_strings_trimmed_witness:
  "inmate_details_of_soup scenario_a ''123456'' = Inr (Some jane_doe) \<and>
   jane_doe \<noteq> [] \<and>
   labelled_value scenario_a ''Name:'' = Inr (strip '' Jane Doe'') \<and>
   trimmed ''Jane Doe'' \<and> trimmed ''White'' \<and> trimmed ''Female'' \<and> trimmed ''1/1/1980'' \<and>
   trimmed ''Jane D.'' \<and> trimmed ''Dade'' \<and> trimmed ''5 Years''"
proof -
  have a: "inmate_details_of_soup scenario_a ''123456'' = Inr (Some jane_doe)" by code_simp
  have b: "jane_doe \<noteq> []" by (simp add: jane_doe_def)
  have c: "labelled_value scenario_a ''Name:'' = Inr (strip '' Jane Doe'')" by code_simp
  from extracted_strings_trimmed [OF a b] a b c show ?thesis
    by (auto simp: jane_doe_def)
qed

section \<open>Replacement of a stored record\<close>

lemma update_past_set_fields:
  "k \<notin> fst ` set new \<Longrightarrow> k \<in> fst ` set al \<Longrightarrow>
   AList.update k v (set_fields new al) = set_fields new (AList.update k v al)"
proof (induction new arbitrary: al)
  case Nil
  show ?case by (simp add: set_fields_def)
next
  case (Cons kv new)
  have step: "set_fields (kv # new) x = set_fields new (AList.update (fst kv) (snd kv) x)" for x
    by (simp add: set_fields_def)
  from Cons.prems have ne: "k \<noteq> fst kv" and notin: "k \<notin> fst ` set new" by auto
  have inn: "k \<in> fst ` set (AList.update (fst kv) (snd kv) al)"
    using Cons.prems(2) by (rule update_keys_present)
  have "AList.update k v (set_fields (kv # new) al) =
        set_fields new (AList.update k v (AList.update (fst kv) (snd kv) al))"
    unfolding step using Cons.IH [OF notin inn] .
  also have "AList.update k v (AList.update (fst kv) (snd kv) al) =
        AList.update (fst kv) (snd kv) (AList.update k v al)"
    using ne Cons.prems(2) by (simp add: update_keep_place)
  finally show ?case by (simp add: step)
qed

lemma set_fields_overwrites:
  "distinct (map fst r1) \<Longrightarrow> map fst r1 = map fst r2 \<Longrightarrow>
   set_fields r2 (set_fields r1 d) = set_fields r2 d"
proof (induction r1 arbitrary: r2 d)
  case Nil
  then show ?case by (simp add: set_fields_def)
next
  case (Cons kv r1)
  from Cons.prems(2) obtain kv2 r2' where r2: "r2 = kv2 # r2'" and k: "fst kv2 = fst kv"
    and rest: "map fst r1 = map fst r2'"
    by (cases r2) auto
  from Cons.prems(1) have notin: "fst kv \<notin> fst ` set r1" and dist: "distinct (map fst r1)"
    by auto
  have step: "set_fields (x # xs) y = set_fields xs (AList.update (fst x) (snd x) y)" for x xs y
    by (simp add: set_fields_def)
  let ?e = "AList.update (fst kv) (snd kv) d"
  have ine: "fst kv \<in> fst ` set ?e" by (induction d) auto
  have "set_fields r2 (set_fields (kv # r1) d) =
        set_fields r2' (AList.update (fst kv) (snd kv2) (set_fields r1 ?e))"
    by (simp add: r2 step k)
  also have "AList.update (fst kv) (snd kv2) (set_fields r1 ?e) =
        set_fields r1 (AList.update (fst kv) (snd kv2) ?e)"
    using notin ine by (rule update_past_set_fields)
  also have "AList.update (fst kv) (snd kv2) ?e = AList.update (fst kv) (snd kv2) d"
    by simp
  also have "set_fields r2' (set_fields r1 (AList.update (fst kv) (snd kv2) d)) =
        set_fields r2' (AList.update (fst kv) (snd kv2) d)"
    using dist rest by (rule Cons.IH)
  finally show ?case by (simp add: r2 step k)
qed

lemma update_one_overwrites:
  assumes "distinct (map fst r1)" and "map fst r1 = map fst r2"
    and "map_of r1 ''DC Number'' = Some key" and "map_of r2 ''DC Number'' = Some key"
  shows "update_one key r2 (update_one key r1 c) = update_one key r2 c"
  using assms
  by (induction c) (simp_all add: matches_set_fields set_fields_overwrites)

lemma record_layout:
  assumes "inmate_details_of_soup soup k = Inr (Some r)" and "r \<noteq> []"
  shows "\<exists>name race sex birth_date sh aliases ih.
     r = [(''DC Number'', Str k),
          (''Name'', Str name),
          (''Race'', Str race),
          (''Sex'', Str sex),
          (''Birth Date'', Str birth_date),
          (''Current Prison Sentence History'', Rows sh),
          (''Aliases'', Str aliases),
          (''Incarceration History'', Rows ih)]"
  using inmate_details_shape [OF assms] by (elim exE conjE) simp

lemma record_field_names:
  assumes "inmate_details_of_soup soup k = Inr (Some r)" and "r \<noteq> []"
  shows "map fst r = [''DC Number'', ''Name'', ''Race'', ''Sex'', ''Birth Date'',
     ''Current Prison Sentence History'', ''Aliases'', ''Incarceration History'']"
  using record_layout [OF assms] by auto

lemma set_fields_record_on_key:
  assumes "inmate_details_of_soup soup k = Inr (Some r)" and "r \<noteq> []"
  shows "set_fields r [(''DC Number'', Str k)] = r"
  using record_layout [OF assms] by (auto simp: set_fields_def)

lemma set_fields_record_on_record:
  assumes "inmate_details_of_soup soup k = Inr (Some r)" and "r \<noteq> []"
    and "inmate_details_of_soup soup0 k = Inr (Some r0)" and "r0 \<noteq> []"
  shows "set_fields r r0 = r"
  using record_layout [OF assms(1,2)] record_layout [OF assms(3,4)]
  by (auto simp: set_fields_def)

text \<open>
  Claim C1: for every two records \<open>r1\<close> and \<open>r2\<close> that the extraction returns for one DC
  number, storing \<open>r1\<close> and then \<open>r2\<close> leaves the collection as storing \<open>r2\<close> alone
  does, so nothing of \<open>r1\<close> is left anywhere. The two records have the same field names
  (no field is present in \<open>r1\<close> only), and the document then found under the key has the
  value of \<open>r2\<close> in every one of them. When the key was new, or held a record that the
  extraction had returned for it, the document found under the key is \<open>r2\<close> itself.
\<close>

theorem upsert_replaces_record:
  assumes "inmate_details_of_soup soup1 k = Inr (Some r1)" and "r1 \<noteq> []"
    and "inmate_details_of_soup soup2 k = Inr (Some r2)" and "r2 \<noteq> []"
  shows "\<exists>w1 w2 d. store_inmate_details None r1 w = Inr w1 \<and>
     store_inmate_details None r2 w1 = Inr w2 \<and>
     collection w2 = update_one (Str k) r2 (collection w) \<and>
     find_one (Str k) (collection w2) = Some d \<and>
     field_names r1 = field_names r2 \<and>
     (\<forall>f \<in> field_names r2. map_of d f = map_of r2 f) \<and>
     (find_one (Str k) (collection w) = None \<or>
      (\<exists>soup0. inmate_details_of_soup soup0 k = Inr (find_one (Str k) (collection w))) \<longrightarrow>
      d = r2)"
proof -
  let ?c = "collection w"
  let ?c1 = "update_one (Str k) r1 ?c"
  let ?c2 = "update_one (Str k) r2 ?c1"
  let ?d0 = "case find_one (Str k) ?c of None \<Rightarrow> [(''DC Number'', Str k)] | Some d \<Rightarrow> d"
  let ?d = "set_fields r2 ?d0"
  have k1: "map_of r1 ''DC Number'' = Some (Str k)" using assms(1,2) by (rule record_has_key)
  have k2: "map_of r2 ''DC Number'' = Some (Str k)" using assms(3,4) by (rule record_has_key)
  have n1: "map fst r1 = [''DC Number'', ''Name'', ''Race'', ''Sex'', ''Birth Date'',
     ''Current Prison Sentence History'', ''Aliases'', ''Incarceration History'']"
    using assms(1,2) by (rule record_field_names)
  have n2: "map fst r2 = [''DC Number'', ''Name'', ''Race'', ''Sex'', ''Birth Date'',
     ''Current Prison Sentence History'', ''Aliases'', ''Incarceration History'']"
    using assms(3,4) by (rule record_field_names)
  have d1: "distinct (map fst r1)" unfolding n1 by simp
  have d2: "distinct (map fst r2)" unfolding n2 by simp
  have same: "map fst r1 = map fst r2" using n1 n2 by simp
  have s1: "store_inmate_details None r1 w =
      Inr (w\<lparr>collection := ?c1, update_calls := Suc (update_calls w)\<rparr>)"
    using k1 by (simp add: store_inmate_details_def)
  have s2: "store_inmate_details None r2
      (w\<lparr>collection := ?c1, update_calls := Suc (update_calls w)\<rparr>) =
      Inr (w\<lparr>collection := ?c2, update_calls := Suc (Suc (update_calls w))\<rparr>)"
    using k2 by (simp add: store_inmate_details_def)
  have over: "?c2 = update_one (Str k) r2 ?c"
    using d1 same k1 k2 by (rule update_one_overwrites)
  have found: "find_one (Str k) ?c2 = Some ?d"
    unfolding over using d2 k2 by (rule find_one_update_one)
  have names: "field_names r1 = field_names r2"
    using same by (metis field_names_def set_map)
  have vals: "\<forall>f \<in> field_names r2. map_of ?d f = map_of r2 f"
  proof
    fix f assume "f \<in> field_names r2"
    then have "map_of r2 f \<noteq> None"
      by (simp add: field_names_def map_of_eq_None_iff)
    then show "map_of ?d f = map_of r2 f"
      using d2 by (auto simp: map_of_set_fields map_add_def split: option.splits)
  qed
  have exact: "?d = r2"
    if "find_one (Str k) ?c = None \<or>
      (\<exists>soup0. inmate_details_of_soup soup0 k = Inr (find_one (Str k) ?c))"
  proof (cases "find_one (Str k) ?c")
    case None
    then show ?thesis using assms(3,4) by (simp add: set_fields_record_on_key)
  next
    case (Some r0)
    with that obtain soup0 where ex0: "inmate_details_of_soup soup0 k = Inr (Some r0)"
      by auto
    from Some have "matches (Str k) r0"
      unfolding find_one_def by (auto simp: find_Some_iff)
    then have "r0 \<noteq> []" by (auto simp: matches_def)
    with ex0 assms(3,4) have "set_fields r2 r0 = r2"
      by (simp add: set_fields_record_on_record)
    with Some show ?thesis by simp
  qed
  from s1 s2 over found names vals exact show ?thesis
    by (intro exI [of _ "w\<lparr>collection := ?c1, update_calls := Suc (update_calls w)\<rparr>"]
        exI [of _ "w\<lparr>collection := ?c2, update_calls := Suc (Suc (update_calls w))\<rparr>"]
        exI [of _ ?d]) simp
qed

theorem upsert_replaces_record_witness:
  "inmate_details_of_soup scenario_a ''123456'' = Inr (Some jane_doe) \<and>
   jane_doe \<noteq> [] \<and>
   inmate_details_of_soup history_page ''123456'' = Inr (Some jane_roe) \<and>
   jane_roe \<noteq> [] \<and>
   find_one (Str ''123456'') (collection fresh_world) = None \<and>
   (\<exists>w1 w2. store_inmate_details None jane_doe fresh_world = Inr w1 \<and>
      store_inmate_details None jane_roe w1 = Inr w2 \<and>
      collection w2 = [jane_roe] \<and>
      find_one (Str ''123456'') (collection w2) = Some jane_roe)"
proof -
  have a: "inmate_details_of_soup scenario_a ''123456'' = Inr (Some jane_doe)" by code_simp
  have b: "jane_doe \<noteq> []" by (simp add: jane_doe_def)
  have c: "inmate_details_of_soup history_page ''123456'' = Inr (Some jane_roe)" by code_simp
  have d: "jane_roe \<noteq> []" by (simp add: jane_roe_def)
  have e: "find_one (Str ''123456'') (collection fresh_world) = None"
    by (simp add: fresh_world_def find_one_def)
  have f: "update_one (Str ''123456'') jane_roe (collection fresh_world) = [jane_roe]"
    by code_simp
  from upsert_replaces_record [OF a b c d, of fresh_world] e f
  obtain w1 w2 dd where "store_inmate_details None jane_doe fresh_world = Inr w1"
    "store_inmate_details None jane_roe w1 = Inr w2"
    "collection w2 = [jane_roe]"
    "find_one (Str ''123456'') (collection w2) = Some dd" "dd = jane_roe"
    by auto
  with a b c d e show ?thesis by auto
qed

section \<open>The hand-off to the presentation\<close>


lemma run_failed_box:
  "run_callback ShowFailedToRetrieve w =
     Inr (w\<lparr>dialogs := dialogs w @ [(''Error'', ''Failed to retrieve valid inmate details.'')]\<rparr>)"
  by (simp add: run_callback_def)



section \<open>Failing extraction\<close>

text \<open>
  Claim C2, as stated: for a document without the marker the extraction returns the
  typed failure \<^verbatim>\<open>DocumentStructureError\<close>, the same for a page that is not found and
  for a malformed response. In the code a response without a title makes the extraction
  raise \<^verbatim>\<open>AttributeError\<close>, a page with another title makes it return a dict without
  fields, and what the worker then does is what it does for a detail page without a name
  row: the failure has no type.
\<close>

theorem marker_absent_counterexample:
  "\<not> has_marker no_title_page \<and>
   inmate_details_of_soup no_title_page ''123456'' = Inl AttributeError \<and>
   \<not> has_marker not_found_page \<and>
   inmate_details_of_soup not_found_page ''123456'' = Inr (Some []) \<and>
   has_marker no_name_page \<and>
   fetch_and_store_inmate_details (serve not_found_page) None ''123456'' fresh_world =
     fetch_and_store_inmate_details (serve no_name_page) None ''123456'' fresh_world"
  by code_simp

text \<open>
  Claim C2, amended: for a document whose title has a text that lacks the marker, the
  extraction returns a value without record and without error type (one that line 217
  takes for false); the worker stores and writes nothing and queues the error box of
  line 222, which the event loop then opens. A document whose title is missing or has no
  single text is not covered.
\<close>

theorem marker_absent_no_record:
  assumes "\<not> has_marker soup" and "title_string soup = Inr t" and "get k = Inr soup"
  shows "(\<exists>res. inmate_details_of_soup soup k = Inr res \<and> falsy res) \<and>
     fetch_and_store_inmate_details get fault k w =
       w\<lparr>requested := requested w @ [k],
         after_queue := after_queue w @ [ShowFailedToRetrieve]\<rparr> \<and>
     run_callback ShowFailedToRetrieve (fetch_and_store_inmate_details get fault k w) =
       Inr ((fetch_and_store_inmate_details get fault k w)
         \<lparr>dialogs := dialogs w @ [(''Error'', ''Failed to retrieve valid inmate details.'')]\<rparr>)"
proof -
  from assms(1,2) have "\<not> contains t ''Inmate Population Information Detail''"
    by (simp add: has_marker_def)
  with assms(2) have res: "inmate_details_of_soup soup k = Inr (Some [])"
    by (rule title_without_marker)
  then have "\<exists>res. inmate_details_of_soup soup k = Inr res \<and> falsy res"
    by (simp add: falsy_def)
  moreover from assms(3) res have "fetch_and_store_inmate_details get fault k w =
       w\<lparr>requested := requested w @ [k],
         after_queue := after_queue w @ [ShowFailedToRetrieve]\<rparr>"
    by (rule worker_empty_dict)
  ultimately show ?thesis by (simp add: run_failed_box)
qed

theorem marker_absent_no_record_witness:
  "\<not> has_marker not_found_page \<and>
   title_string not_found_page = Inr ''Offender Search'' \<and>
   serve not_found_page ''123456'' = Inr not_found_page \<and>
   (\<exists>res. inmate_details_of_soup not_found_page ''123456'' = Inr res \<and> falsy res) \<and>
   fetch_and_store_inmate_details (serve not_found_page) None ''123456'' fresh_world =
     fresh_world\<lparr>requested := [''123456''], after_queue := [ShowFailedToRetrieve]\<rparr> \<and>
   run_callback ShowFailedToRetrieve
     (fetch_and_store_inmate_details (serve not_found_page) None ''123456'' fresh_world) =
     Inr (fresh_world\<lparr>requested := [''123456''],
            dialogs := [(''Error'', ''Failed to retrieve valid inmate details.'')],
            after_queue := [ShowFailedToRetrieve]\<rparr>)"
proof -
  have a: "\<not> has_marker not_found_page" by code_simp
  have b: "title_string not_found_page = Inr ''Offender Search''" by code_simp
  have c: "serve not_found_page ''123456'' = Inr not_found_page" by (simp add: serve_def)
  from marker_absent_no_record
    [where soup = not_found_page and get = "serve not_found_page" and k = "''123456''"
       and t = "''Offender Search''" and fault = None and w = fresh_world, OF a b c] a b c
  show ?thesis by (simp add: fresh_world_def run_callback_def)
qed

text \<open>
  Claim C3, as stated: for a document with the marker whose name or race is absent or
  empty the extraction returns the typed failure \<^verbatim>\<open>MissingRequiredField\<close>. In the code
  Scenario C (no race row) makes the extraction raise \<^verbatim>\<open>AttributeError\<close> on line 65,
  and the callback then queued raises \<^verbatim>\<open>NameError\<close>; a blank race makes the
  extraction return \<^verbatim>\<open>None\<close>, after which the worker does what it does for a page
  without the marker: the failure has no type.
\<close>

theorem required_field_counterexample:
  "has_marker scenario_c \<and>
   field_missing scenario_c ''Race:'' \<and>
   inmate_details_of_soup scenario_c ''123456'' = Inl AttributeError \<and>
   fetch_and_store_inmate_details (serve scenario_c) None ''123456'' fresh_world =
     fresh_world\<lparr>requested := [''123456''], after_queue := [ShowErrorOccurred]\<rparr> \<and>
   run_callback ShowErrorOccurred
     (fetch_and_store_inmate_details (serve scenario_c) None ''123456'' fresh_world) =
     Inl NameError \<and>
   has_marker blank_race_page \<and>
   field_missing blank_race_page ''Race:'' \<and>
   inmate_details_of_soup blank_race_page ''123456'' = Inr None \<and>
   fetch_and_store_inmate_details (serve blank_race_page) None ''123456'' fresh_world =
     fetch_and_store_inmate_details (serve not_found_page) None ''123456'' fresh_world"
  by code_simp

text \<open>
  Claim C3, amended: for a document with the marker in which the name label is absent, or
  in which the four labelled values are read and the name or the race is empty, the
  extraction returns \<^verbatim>\<open>None\<close>: no record, filled or half filled, and no error type.
  The worker stores and writes nothing and queues the error box of line 222, which the
  event loop then opens. A document whose race row is absent is not covered.
\<close>

theorem required_field_missing_no_record:
  assumes "has_marker soup"
    and "bs_find soup ''th'' (\<lambda>n. tag_string n = Some ''Name:'') = None \<or>
      (\<exists>name race sex birth_date.
         labelled_value soup ''Name:'' = Inr name \<and>
         labelled_value soup ''Race:'' = Inr race \<and>
         labelled_value soup ''Sex:'' = Inr sex \<and>
         labelled_value soup ''Birth Date:'' = Inr birth_date \<and>
         (name = [] \<or> race = []))"
    and "get k = Inr soup"
  shows "inmate_details_of_soup soup k = Inr None \<and>
     fetch_and_store_inmate_details get fault k w =
       w\<lparr>requested := requested w @ [k],
         after_queue := after_queue w @ [ShowFailedToRetrieve]\<rparr> \<and>
     run_callback ShowFailedToRetrieve (fetch_and_store_inmate_details get fault k w) =
       Inr ((fetch_and_store_inmate_details get fault k w)
         \<lparr>dialogs := dialogs w @ [(''Error'', ''Failed to retrieve valid inmate details.'')]\<rparr>)"
proof -
  from assms(2) have none: "inmate_details_of_soup soup k = Inr None"
  proof
    assume "bs_find soup ''th'' (\<lambda>n. tag_string n = Some ''Name:'') = None"
    with assms(1) show ?thesis by (rule name_label_absent)
  next
    assume "\<exists>name race sex birth_date.
         labelled_value soup ''Name:'' = Inr name \<and>
         labelled_value soup ''Race:'' = Inr race \<and>
         labelled_value soup ''Sex:'' = Inr sex \<and>
         labelled_value soup ''Birth Date:'' = Inr birth_date \<and>
         (name = [] \<or> race = [])"
    then obtain name race sex birth_date where
      "labelled_value soup ''Name:'' = Inr name"
      "labelled_value soup ''Race:'' = Inr race"
      "labelled_value soup ''Sex:'' = Inr sex"
      "labelled_value soup ''Birth Date:'' = Inr birth_date"
      "name = [] \<or> race = []"
      by blast
    with assms(1) show ?thesis by (rule field_empty)
  qed
  from assms(3) none have "fetch_and_store_inmate_details get fault k w =
       w\<lparr>requested := requested w @ [k],
         after_queue := after_queue w @ [ShowFailedToRetrieve]\<rparr>"
    by (rule worker_none)
  with none show ?thesis by (simp add: run_failed_box)
qed

theorem required_field_missing_no_record_witness:
  "has_marker blank_race_page \<and>
   labelled_value blank_race_page ''Name:'' = Inr ''Jane Doe'' \<and>
   labelled_value blank_race_page ''Race:'' = Inr [] \<and>
   labelled_value blank_race_page ''Sex:'' = Inr ''Female'' \<and>
   labelled_value blank_race_page ''Birth Date:'' = Inr ''1/1/1980'' \<and>
   serve blank_race_page ''123456'' = Inr blank_race_page \<and>
   inmate_details_of_soup blank_race_page ''123456'' = Inr None \<and>
   fetch_and_store_inmate_details (serve blank_race_page) None ''123456'' fresh_world =
     fresh_world\<lparr>requested := [''123456''], after_queue := [ShowFailedToRetrieve]\<rparr> \<and>
   has_marker no_name_page \<and>
   bs_find no_name_page ''th'' (\<lambda>n. tag_string n = Some ''Name:'') = None \<and>
   inmate_details_of_soup no_name_page ''123456'' = Inr None"
proof -
  have a: "has_marker blank_race_page" by code_simp
  have b: "labelled_value blank_race_page ''Name:'' = Inr ''Jane Doe''"
    "labelled_value blank_race_page ''Race:'' = Inr []"
    "labelled_value blank_race_page ''Sex:'' = Inr ''Female''"
    "labelled_value blank_race_page ''Birth Date:'' = Inr ''1/1/1980''"
    by code_simp+
  have c: "serve blank_race_page ''123456'' = Inr blank_race_page" by (simp add: serve_def)
  have d: "has_marker no_name_page" by code_simp
  have e: "bs_find no_name_page ''th'' (\<lambda>n. tag_string n = Some ''Name:'') = None"
    by code_simp
  have f: "serve no_name_page ''123456'' = Inr no_name_page" by (simp add: serve_def)
  from b have b': "bs_find blank_race_page ''th'' (\<lambda>n. tag_string n = Some ''Name:'') = None \<or>
      (\<exists>name race sex birth_date.
         labelled_value blank_race_page ''Name:'' = Inr name \<and>
         labelled_value blank_race_page ''Race:'' = Inr race \<and>
         labelled_value blank_race_page ''Sex:'' = Inr sex \<and>
         labelled_value blank_race_page ''Birth Date:'' = Inr birth_date \<and>
         (name = [] \<or> race = []))"
    by simp
  from e have e': "bs_find no_name_page ''th'' (\<lambda>n. tag_string n = Some ''Name:'') = None \<or>
      (\<exists>name race sex birth_date.
         labelled_value no_name_page ''Name:'' = Inr name \<and>
         labelled_value no_name_page ''Race:'' = Inr race \<and>
         labelled_value no_name_page ''Sex:'' = Inr sex \<and>
         labelled_value no_name_page ''Birth Date:'' = Inr birth_date \<and>
         (name = [] \<or> race = []))"
    by simp
  from required_field_missing_no_record
    [where soup = blank_race_page and get = "serve blank_race_page" and k = "''123456''"
       and fault = None and w = fresh_world, OF a b' c]
    required_field_missing_no_record
    [where soup = no_name_page and get = "serve no_name_page" and k = "''123456''"
       and fault = None and w = fresh_world, OF d e' f]
    a b c d e
  show ?thesis by (simp add: fresh_world_def)
qed

text \<open>
  Claim C6, as stated: a document with the marker and the required fields but without
  its alias block is still extracted, with an empty \<^verbatim>\<open>Aliases\<close>. In the code line 93
  takes \<^verbatim>\<open>.find('p')\<close> of the result of the search for the block: for Scenario A
  without its alias block the extraction raises \<^verbatim>\<open>AttributeError\<close> and no record is
  queued for display.
\<close>

theorem alias_block_absent_counterexample:
  "has_marker no_alias_page \<and>
   labelled_value no_alias_page ''Name:'' = Inr ''Jane Doe'' \<and>
   labelled_value no_alias_page ''Race:'' = Inr ''White'' \<and>
   labelled_value no_alias_page ''Sex:'' = Inr ''Female'' \<and>
   labelled_value no_alias_page ''Birth Date:'' = Inr ''1/1/1980'' \<and>
   find_div no_alias_page ''ctl00_ContentPlaceHolder1_divAlias'' = None \<and>
   inmate_details_of_soup no_alias_page ''123456'' = Inl AttributeError \<and>
   fetch_and_store_inmate_details (serve no_alias_page) None ''123456'' fresh_world =
     fresh_world\<lparr>requested := [''123456''], after_queue := [ShowErrorOccurred]\<rparr>"
  by code_simp

text \<open>
  Claim C6, amended: for a document with the marker whose four labelled values are read,
  name and race not empty, and whose alias block (the block or the paragraph in it) is
  absent, the extraction returns no record: it raises, with the \<^verbatim>\<open>AttributeError\<close> of
  line 93 when the sentence rows before the alias block are read without error. The
  worker stores and writes nothing and queues no display of a record, only the callback
  of its \<^verbatim>\<open>except\<close> clause.
\<close>

theorem alias_block_absent_raises:
  assumes "has_marker soup"
    and "labelled_value soup ''Name:'' = Inr name"
    and "labelled_value soup ''Race:'' = Inr race"
    and "labelled_value soup ''Sex:'' = Inr sex"
    and "labelled_value soup ''Birth Date:'' = Inr birth_date"
    and "name \<noteq> []" and "race \<noteq> []"
    and "find_div soup ''ctl00_ContentPlaceHolder1_divAlias'' = None \<or>
         (\<exists>d. find_div soup ''ctl00_ContentPlaceHolder1_divAlias'' = Some d \<and>
              bs_find (contents (fst d)) ''p'' (\<lambda>n. True) = None)"
    and "get k = Inr soup"
  shows "(\<exists>e. inmate_details_of_soup soup k = Inl e \<and> (e = AttributeError \<or> e = IndexError)) \<and>
     ((\<exists>srows sh. table_rows soup ''ctl00_ContentPlaceHolder1_divCurrentPrison'' = Inr srows \<and>
          sentence_loop srows [] = Inr sh) \<longrightarrow>
      inmate_details_of_soup soup k = Inl AttributeError) \<and>
     fetch_and_store_inmate_details get fault k w =
       w\<lparr>requested := requested w @ [k], after_queue := after_queue w @ [ShowErrorOccurred]\<rparr>"
proof -
  note res = alias_absent_result [OF assms(1-8), of k]
  have raised: "\<exists>e. inmate_details_of_soup soup k = Inl e \<and> (e = AttributeError \<or> e = IndexError)"
    unfolding res
    by (auto split: sum.splits dest: table_rows_Inl sentence_loop_Inl)
  then obtain e where e: "inmate_details_of_soup soup k = Inl e" by blast
  from assms(9) e have worker: "fetch_and_store_inmate_details get fault k w =
       w\<lparr>requested := requested w @ [k], after_queue := after_queue w @ [ShowErrorOccurred]\<rparr>"
    by (rule worker_extraction_raises)
  have second: "inmate_details_of_soup soup k = Inl AttributeError"
    if "\<exists>srows sh. table_rows soup ''ctl00_ContentPlaceHolder1_divCurrentPrison'' = Inr srows \<and>
          sentence_loop srows [] = Inr sh"
    using that unfolding res by auto
  from raised worker second show ?thesis by blast
qed

theorem alias_block_absent_raises_witness:
  "has_marker no_alias_page \<and>
   labelled_value no_alias_page ''Name:'' = Inr ''Jane Doe'' \<and>
   labelled_value no_alias_page ''Race:'' = Inr ''White'' \<and>
   labelled_value no_alias_page ''Sex:'' = Inr ''Female'' \<and>
   labelled_value no_alias_page ''Birth Date:'' = Inr ''1/1/1980'' \<and>
   find_div no_alias_page ''ctl00_ContentPlaceHolder1_divAlias'' = None \<and>
   serve no_alias_page ''123456'' = Inr no_alias_page \<and>
   table_rows no_alias_page ''ctl00_ContentPlaceHolder1_divCurrentPrison'' = Inr [(theft_row, [])] \<and>
   sentence_loop [(theft_row, [])] [] = Inr [sentence_of_row (theft_row, [])] \<and>
   inmate_details_of_soup no_alias_page ''123456'' = Inl AttributeError \<and>
   fetch_and_store_inmate_details (serve no_alias_page) None ''123456'' fresh_world =
     fresh_world\<lparr>requested := [''123456''], after_queue := [ShowErrorOccurred]\<rparr>"
proof -
  have a: "has_marker no_alias_page" by code_simp
  have b: "labelled_value no_alias_page ''Name:'' = Inr ''Jane Doe''"
    "labelled_value no_alias_page ''Race:'' = Inr ''White''"
    "labelled_value no_alias_page ''Sex:'' = Inr ''Female''"
    "labelled_value no_alias_page ''Birth Date:'' = Inr ''1/1/1980''"
    by code_simp+
  have c: "find_div no_alias_page ''ctl00_ContentPlaceHolder1_divAlias'' = None" by code_simp
  have d: "serve no_alias_page ''123456'' = Inr no_alias_page" by (simp add: serve_def)
  have e: "table_rows no_alias_page ''ctl00_ContentPlaceHolder1_divCurrentPrison'' =
      Inr [(theft_row, [])]" by code_simp
  have f: "sentence_loop [(theft_row, [])] [] = Inr [sentence_of_row (theft_row, [])]"
    by code_simp
  from alias_block_absent_raises
    [where soup = no_alias_page and get = "serve no_alias_page" and k = "''123456''"
       and name = "''Jane Doe''" and race = "''White''" and sex = "''Female''"
       and birth_date = "''1/1/1980''" and fault = None and w = fresh_world] a b c d e f
  show ?thesis by (auto simp: fresh_world_def)
qed

section \<open>Successful extraction of the histories\<close>

lemma table_rows_after_header:
  "find_div soup v = Some d \<Longrightarrow> bs_find (contents (fst d)) ''table'' (\<lambda>n. True) = Some t \<Longrightarrow>
   table_rows soup v = Inr (rows_after_header t)"
  by (simp add: table_rows_def rows_after_header_def tags_below_def bs_find_all_def and_then_def
      deref_def drop_Suc)

text \<open>
  Claim C5: for a well-formed detail document the extraction returns the record whose
  sentence history is the six-column schema applied to each row of the sentence table
  after its header row, in document order, and whose incarceration history is the
  two-column schema applied likewise to the incarceration table; the worker stores this
  record and queues its display. Well-formed means: the marker; the four labelled values,
  name and race not empty; under each of the two anchors a table whose rows after the
  header row have at least six, respectively two, cells; the alias paragraph. The rows
  and the cells are stated of the tree, by \<^const>\<open>rows_after_header\<close> and
  \<^const>\<open>tags_below\<close>. For Scenario A the record is the expected one, with one sentence
  entry and no incarceration entry; for a page with two rows in each table the entries
  stand in the order of the rows.
\<close>

theorem well_formed_document_extracted:
  assumes "has_marker soup"
    and "labelled_value soup ''Name:'' = Inr name"
    and "labelled_value soup ''Race:'' = Inr race"
    and "labelled_value soup ''Sex:'' = Inr sex"
    and "labelled_value soup ''Birth Date:'' = Inr birth_date"
    and "name \<noteq> []" and "race \<noteq> []"
    and "find_div soup ''ctl00_ContentPlaceHolder1_divCurrentPrison'' = Some sd"
    and "bs_find (contents (fst sd)) ''table'' (\<lambda>n. True) = Some st"
    and "\<forall>row \<in> set (rows_after_header st). 6 \<le> length (tags_below ''td'' row)"
    and "find_div soup ''ctl00_ContentPlaceHolder1_divAlias'' = Some ad"
    and "bs_find (contents (fst ad)) ''p'' (\<lambda>n. True) = Some p"
    and "find_div soup ''ctl00_ContentPlaceHolder1_divIncarceration'' = Some idv"
    and "bs_find (contents (fst idv)) ''table'' (\<lambda>n. True) = Some it"
    and "\<forall>row \<in> set (rows_after_header it). 2 \<le> length (tags_below ''td'' row)"
    and "get k = Inr soup"
  shows "\<exists>r. r = [(''DC Number'', Str k),
                 (''Name'', Str name),
                 (''Race'', Str race),
                 (''Sex'', Str sex),
                 (''Birth Date'', Str birth_date),
                 (''Current Prison Sentence History'',
                    Rows (map sentence_of_row (rows_after_header st))),
                 (''Aliases'', Str (strip (get_text (fst p)))),
                 (''Incarceration History'',
                    Rows (map incarceration_of_row (rows_after_header it)))] \<and>
     inmate_details_of_soup soup k = Inr (Some r) \<and>
     fetch_and_store_inmate_details get None k w =
       w\<lparr>requested := requested w @ [k],
         collection := update_one (Str k) r (collection w),
         update_calls := Suc (update_calls w),
         after_queue := after_queue w @ [DisplayInmateDetails r]\<rparr>"
proof -
  from assms(1) obtain t where t: "title_string soup = Inr t"
    "contains t ''Inmate Population Information Detail''"
    by (auto dest: has_marker_title)
  have srows: "table_rows soup ''ctl00_ContentPlaceHolder1_divCurrentPrison'' =
      Inr (rows_after_header st)"
    using assms(8,9) by (rule table_rows_after_header)
  have irows: "table_rows soup ''ctl00_ContentPlaceHolder1_divIncarceration'' =
      Inr (rows_after_header it)"
    using assms(13,14) by (rule table_rows_after_header)
  have six: "\<forall>row \<in> set (rows_after_header st). 6 \<le> length (row_cells row)"
    using assms(10) by (simp add: row_cells_below)
  have two: "\<forall>row \<in> set (rows_after_header it). 2 \<le> length (row_cells row)"
    using assms(15) by (simp add: row_cells_below)
  have sh: "sentence_loop (rows_after_header st) [] =
      Inr (map sentence_of_row (rows_after_header st))"
    using sentence_loop_ok [OF six, of "[]"] by simp
  have ih: "incarceration_loop (rows_after_header it) [] =
      Inr (map incarceration_of_row (rows_after_header it))"
    using incarceration_loop_ok [OF two, of "[]"] by simp
  note res = inmate_details_success [OF t assms(2-7) srows sh assms(11,12) irows ih, of k]
  have "fetch_and_store_inmate_details get None k w =
       w\<lparr>requested := requested w @ [k],
         collection := update_one (Str k)
           [(''DC Number'', Str k),
            (''Name'', Str name),
            (''Race'', Str race),
            (''Sex'', Str sex),
            (''Birth Date'', Str birth_date),
            (''Current Prison Sentence History'',
               Rows (map sentence_of_row (rows_after_header st))),
            (''Aliases'', Str (strip (get_text (fst p)))),
            (''Incarceration History'',
               Rows (map incarceration_of_row (rows_after_header it)))] (collection w),
         update_calls := Suc (update_calls w),
         after_queue := after_queue w @ [DisplayInmateDetails
           [(''DC Number'', Str k),
            (''Name'', Str name),
            (''Race'', Str race),
            (''Sex'', Str sex),
            (''Birth Date'', Str birth_date),
            (''Current Prison Sentence History'',
               Rows (map sentence_of_row (rows_after_header st))),
            (''Aliases'', Str (strip (get_text (fst p)))),
            (''Incarceration History'',
               Rows (map incarceration_of_row (rows_after_header it)))]]\<rparr>"
    using assms(16) res by (simp add: worker_record)
  with res show ?thesis by simp
qed

theorem well_formed_document_extracted_witness:
  "has_marker scenario_a \<and>
   rows_after_header (sentence_table, []) = [(theft_row, [])] \<and>
   rows_after_header (incarceration_table, []) = [] \<and>
   inmate_details_of_soup scenario_a ''123456'' = Inr (Some jane_doe) \<and>
   fetch_and_store_inmate_details (serve scenario_a) None ''123456'' fresh_world =
     fresh_world\<lparr>requested := [''123456''],
       collection := [jane_doe],
       update_calls := 1,
       after_queue := [DisplayInmateDetails jane_doe]\<rparr> \<and>
   has_marker history_page \<and>
   rows_after_header (long_sentence_table, []) = [(theft_row, [fraud_row]), (fraud_row, [])] \<and>
   rows_after_header (long_incarceration_table, []) =
     [(first_custody_row, [second_custody_row]), (second_custody_row, [])] \<and>
   inmate_details_of_soup history_page ''123456'' = Inr (Some jane_roe) \<and>
   fetch_and_store_inmate_details (serve history_page) None ''123456'' fresh_world =
     fresh_world\<lparr>requested := [''123456''],
       collection := [jane_roe],
       update_calls := 1,
       after_queue := [DisplayInmateDetails jane_roe]\<rparr>"
proof -
  have a: "has_marker scenario_a" by code_simp
  have b: "labelled_value scenario_a ''Name:'' = Inr ''Jane Doe''"
    "labelled_value scenario_a ''Race:'' = Inr ''White''"
    "labelled_value scenario_a ''Sex:'' = Inr ''Female''"
    "labelled_value scenario_a ''Birth Date:'' = Inr ''1/1/1980''"
    by code_simp+
  have c: "''Jane Doe'' \<noteq> []" "''White'' \<noteq> []" by simp_all
  have d: "find_div scenario_a ''ctl00_ContentPlaceHolder1_divCurrentPrison'' =
      Some (sentence_block, [alias_block, incarceration_block])" by code_simp
  have e: "bs_find (contents (fst (sentence_block, [alias_block, incarceration_block])))
      ''table'' (\<lambda>n. True) = Some (sentence_table, [])" by code_simp
  have f: "rows_after_header (sentence_table, []) = [(theft_row, [])]" by code_simp
  have f': "\<forall>row \<in> set (rows_after_header (sentence_table, [])).
      6 \<le> length (tags_below ''td'' row)"
    unfolding f by code_simp
  have g: "find_div scenario_a ''ctl00_ContentPlaceHolder1_divAlias'' =
      Some (alias_block, [incarceration_block])" by code_simp
  have h: "bs_find (contents (fst (alias_block, [incarceration_block]))) ''p'' (\<lambda>n. True) =
      Some (alias_paragraph, [])" by code_simp
  have i: "find_div scenario_a ''ctl00_ContentPlaceHolder1_divIncarceration'' =
      Some (incarceration_block, [])" by code_simp
  have j: "bs_find (contents (fst (incarceration_block, []))) ''table'' (\<lambda>n. True) =
      Some (incarceration_table, [])" by code_simp
  have l: "rows_after_header (incarceration_table, []) = []" by code_simp
  have l': "\<forall>row \<in> set (rows_after_header (incarceration_table, [])).
      2 \<le> length (tags_below ''td'' row)"
    unfolding l by simp
  have m: "serve scenario_a ''123456'' = Inr scenario_a" by (simp add: serve_def)
  have rec: "[(''DC Number'', Str ''123456''),
                 (''Name'', Str ''Jane Doe''),
                 (''Race'', Str ''White''),
                 (''Sex'', Str ''Female''),
                 (''Birth Date'', Str ''1/1/1980''),
                 (''Current Prison Sentence History'',
                    Rows (map sentence_of_row (rows_after_header (sentence_table, [])))),
                 (''Aliases'', Str (strip (get_text (fst (alias_paragraph, []))))),
                 (''Incarceration History'',
                    Rows (map incarceration_of_row (rows_after_header (incarceration_table, []))))]
      = jane_doe"
    by code_simp
  have st: "set_fields jane_doe [(''DC Number'', Str ''123456'')] = jane_doe" by code_simp
  from well_formed_document_extracted
    [where soup = scenario_a and get = "serve scenario_a" and k = "''123456''"
       and name = "''Jane Doe''" and race = "''White''" and sex = "''Female''"
       and birth_date = "''1/1/1980''"
       and sd = "(sentence_block, [alias_block, incarceration_block])"
       and st = "(sentence_table, [])"
       and ad = "(alias_block, [incarceration_block])" and p = "(alias_paragraph, [])"
       and idv = "(incarceration_block, [])" and it = "(incarceration_table, [])"
       and w = fresh_world, OF a b c d e f' g h i j l' m]
  have first: "inmate_details_of_soup scenario_a ''123456'' = Inr (Some jane_doe) \<and>
     fetch_and_store_inmate_details (serve scenario_a) None ''123456'' fresh_world =
     fresh_world\<lparr>requested := [''123456''],
       collection := [jane_doe],
       update_calls := 1,
       after_queue := [DisplayInmateDetails jane_doe]\<rparr>"
    unfolding rec by (simp add: fresh_world_def st)
  have a2: "has_marker history_page" by code_simp
  have b2: "labelled_value history_page ''Name:'' = Inr ''Jane Roe''"
    "labelled_value history_page ''Race:'' = Inr ''White''"
    "labelled_value history_page ''Sex:'' = Inr ''Female''"
    "labelled_value history_page ''Birth Date:'' = Inr ''1/1/1980''"
    by code_simp+
  have c2: "''Jane Roe'' \<noteq> []" "''White'' \<noteq> []" by simp_all
  have d2: "find_div history_page ''ctl00_ContentPlaceHolder1_divCurrentPrison'' =
      Some (long_sentence_block, [alias_block, long_incarceration_block])" by code_simp
  have e2: "bs_find (contents (fst (long_sentence_block, [alias_block, long_incarceration_block])))
      ''table'' (\<lambda>n. True) = Some (long_sentence_table, [])" by code_simp
  have f2: "rows_after_header (long_sentence_table, []) =
      [(theft_row, [fraud_row]), (fraud_row, [])]" by code_simp
  have f2': "\<forall>row \<in> set (rows_after_header (long_sentence_table, [])).
      6 \<le> length (tags_below ''td'' row)"
    unfolding f2 by code_simp
  have g2: "find_div history_page ''ctl00_ContentPlaceHolder1_divAlias'' =
      Some (alias_block, [long_incarceration_block])" by code_simp
  have h2: "bs_find (contents (fst (alias_block, [long_incarceration_block]))) ''p'' (\<lambda>n. True) =
      Some (alias_paragraph, [])" by code_simp
  have i2: "find_div history_page ''ctl00_ContentPlaceHolder1_divIncarceration'' =
      Some (long_incarceration_block, [])" by code_simp
  have j2: "bs_find (contents (fst (long_incarceration_block, []))) ''table'' (\<lambda>n. True) =
      Some (long_incarceration_table, [])" by code_simp
  have l2: "rows_after_header (long_incarceration_table, []) =
     [(first_custody_row, [second_custody_row]), (second_custody_row, [])]" by code_simp
  have l2': "\<forall>row \<in> set (rows_after_header (long_incarceration_table, [])).
      2 \<le> length (tags_below ''td'' row)"
    unfolding l2 by code_simp
  have m2: "serve history_page ''123456'' = Inr history_page" by (simp add: serve_def)
  have rec2: "[(''DC Number'', Str ''123456''),
                 (''Name'', Str ''Jane Roe''),
                 (''Race'', Str ''White''),
                 (''Sex'', Str ''Female''),
                 (''Birth Date'', Str ''1/1/1980''),
                 (''Current Prison Sentence History'',
                    Rows (map sentence_of_row (rows_after_header (long_sentence_table, [])))),
                 (''Aliases'', Str (strip (get_text (fst (alias_paragraph, []))))),
                 (''Incarceration History'',
                    Rows (map incarceration_of_row
                      (rows_after_header (long_incarceration_table, []))))]
      = jane_roe"
    by code_simp
  have st2: "set_fields jane_roe [(''DC Number'', Str ''123456'')] = jane_roe" by code_simp
  from well_formed_document_extracted
    [where soup = history_page and get = "serve history_page" and k = "''123456''"
       and name = "''Jane Roe''" and race = "''White''" and sex = "''Female''"
       and birth_date = "''1/1/1980''"
       and sd = "(long_sentence_block, [alias_block, long_incarceration_block])"
       and st = "(long_sentence_table, [])"
       and ad = "(alias_block, [long_incarceration_block])" and p = "(alias_paragraph, [])"
       and idv = "(long_incarceration_block, [])" and it = "(long_incarceration_table, [])"
       and w = fresh_world, OF a2 b2 c2 d2 e2 f2' g2 h2 i2 j2 l2' m2]
  have second: "inmate_details_of_soup history_page ''123456'' = Inr (Some jane_roe) \<and>
     fetch_and_store_inmate_details (serve history_page) None ''123456'' fresh_world =
     fresh_world\<lparr>requested := [''123456''],
       collection := [jane_roe],
       update_calls := 1,
       after_queue := [DisplayInmateDetails jane_roe]\<rparr>"
    unfolding rec2 by (simp add: fresh_world_def st2)
  from first second a f l a2 f2 l2 show ?thesis by simp
qed

end
